theory Spec2Isabelle
  imports Main "HOL-Library.Word"
begin

unbundle bit_operations_syntax

section \<open>The consistency checker of an OSTree repository (ot-builtin-fsck.c)\<close>

text \<open>
  The checker is glue around the repository library, GLib and libsoup, none of which is part
  of the checked sources. Every library call is a field of the record \<open>ostree_env\<close>, so
  that each theorem holds for every behaviour of the library. The type \<open>'w\<close> is the state
  of everything outside the process image: the repository on disk, the remotes behind the
  network and the cancellable. Calls that only read leave \<open>'w\<close> alone; calls that write
  (deleting an object, writing content, enabling tombstones) or that block on the network
  (sending a request) return the next \<open>'w\<close>. The other type parameters are the opaque
  values the library hands out: \<open>'v\<close> a GVariant, \<open>'s\<close> a GInputStream, \<open>'fi\<close> a GFileInfo
  and \<open>'rq\<close> a SoupRequest.
\<close>

subsection \<open>Data\<close>

datatype OstreeObjectType =
    OSTREE_OBJECT_TYPE_FILE
  | OSTREE_OBJECT_TYPE_DIR_TREE
  | OSTREE_OBJECT_TYPE_DIR_META
  | OSTREE_OBJECT_TYPE_COMMIT

text \<open>
  Modelled from the spec: the macro \<open>OSTREE_OBJECT_TYPE_IS_META\<close> of ostree-core.h.
  Commit, DirTree and DirMeta are the metadata kinds, File is the content kind. With these
  four kinds \<open>g_assert (objtype == OSTREE_OBJECT_TYPE_FILE)\<close> in the non-metadata branch
  of \<open>load_and_fsck_one_object\<close> cannot fail.
\<close>

definition OSTREE_OBJECT_TYPE_IS_META :: "OstreeObjectType \<Rightarrow> bool" where
  "OSTREE_OBJECT_TYPE_IS_META t = (t \<noteq> OSTREE_OBJECT_TYPE_FILE)"

text \<open>A serialized object name: the key of the hash tables of objects.\<close>

type_synonym object_name = "string \<times> OstreeObjectType"

text \<open>
  A GError. Only two codes of the domain \<open>G_IO_ERROR\<close> are told apart by the checker;
  every other pair of domain and code is \<open>G_ERROR_OTHER\<close>.
\<close>

datatype GErrorCode = G_IO_ERROR_FAILED | G_IO_ERROR_NOT_FOUND | G_ERROR_OTHER

datatype GError = GError (code: GErrorCode) (message: string)

definition g_error_matches :: "GError \<Rightarrow> GErrorCode \<Rightarrow> bool" where
  "g_error_matches e c = (code e = c)"

text \<open>
  The out-parameter \<open>GError **error\<close> after a function has returned FALSE: \<open>Some e\<close> when
  it was set, \<open>None\<close> when the function failed without setting it. \<open>g_prefix_error\<close>
  does nothing to an error that is not set.
\<close>

fun g_prefix_error :: "GError option \<Rightarrow> string \<Rightarrow> GError option" where
  "g_prefix_error None prefix = None"
| "g_prefix_error (Some (GError c m)) prefix = Some (GError c (prefix @ m))"

text \<open>What the process writes: \<open>g_print\<close> to standard output, \<open>g_printerr\<close> to standard error.\<close>

datatype out_line = Stdout string | Stderr string

record 'w run_state =
  repo :: 'w
  console :: "out_line list"

definition g_print :: "string \<Rightarrow> 'w run_state \<Rightarrow> 'w run_state" where
  "g_print s st = st\<lparr>console := console st @ [Stdout s]\<rparr>"

definition g_printerr :: "string \<Rightarrow> 'w run_state \<Rightarrow> 'w run_state" where
  "g_printerr s st = st\<lparr>console := console st @ [Stderr s]\<rparr>"

text \<open>The option globals \<open>opt_quiet\<close>, \<open>opt_delete\<close>, \<open>opt_add_tombstones\<close>, \<open>opt_repair_remotes\<close>
  as the option parser leaves them; a \<open>gchar **\<close> that may be NULL is a \<open>string list option\<close>.\<close>

record fsck_options =
  opt_quiet :: bool
  opt_delete :: bool
  opt_add_tombstones :: bool
  opt_repair_remotes :: "string list option"

text \<open>The library.\<close>

record ('w, 'v, 's, 'fi, 'rq) ostree_env =
  object_type_to_string :: "OstreeObjectType \<Rightarrow> string"
  get_relative_object_path :: "string \<Rightarrow> OstreeObjectType \<Rightarrow> bool \<Rightarrow> string"
  checksum_from_bytes :: "8 word list \<Rightarrow> string"
  repo_remote_get_url :: "'w \<Rightarrow> string \<Rightarrow> GError + string"
  repo_remote_list :: "'w \<Rightarrow> string list option"
  repo_list_objects :: "'w \<Rightarrow> GError + object_name list"
  repo_load_commit :: "'w \<Rightarrow> string \<Rightarrow> GError + ('v \<times> 32 word)"
  repo_load_variant :: "'w \<Rightarrow> OstreeObjectType \<Rightarrow> string \<Rightarrow> GError + 'v"
  repo_load_file :: "'w \<Rightarrow> string \<Rightarrow> GError + ('s \<times> 'fi \<times> 'v)"
  repo_traverse_commit_union ::
    "'w \<Rightarrow> string \<Rightarrow> int \<Rightarrow> object_name list \<Rightarrow> GError + object_name list"
  repo_delete_object :: "'w \<Rightarrow> OstreeObjectType \<Rightarrow> string \<Rightarrow> GError option \<times> 'w"
  repo_write_content :: "'w \<Rightarrow> string \<Rightarrow> 's \<Rightarrow> nat \<Rightarrow> GError option \<times> 'w"
  enable_tombstone_commits :: "'w \<Rightarrow> GError option \<times> 'w"
  commit_get_parent :: "'v \<Rightarrow> string option"
  COMMIT_STATE_PARTIAL :: "32 word"
  validate_structureof_commit :: "'v \<Rightarrow> GError option"
  validate_structureof_dirtree :: "'v \<Rightarrow> GError option"
  validate_structureof_dirmeta :: "'v \<Rightarrow> GError option"
  validate_structureof_file_mode :: "32 word \<Rightarrow> GError option"
  file_info_unix_mode :: "'fi \<Rightarrow> 32 word"
  memory_input_stream_of_variant :: "'v \<Rightarrow> 's"
  checksum_file_from_input ::
    "'w \<Rightarrow> 'fi option \<Rightarrow> 'v option \<Rightarrow> 's option \<Rightarrow> OstreeObjectType \<Rightarrow> GError + 8 word list"
  content_stream_parse :: "'w \<Rightarrow> 's \<Rightarrow> int \<Rightarrow> GError + ('s \<times> 'fi \<times> 'v)"
  raw_file_to_content_stream :: "'w \<Rightarrow> 's \<Rightarrow> 'fi \<Rightarrow> 'v \<Rightarrow> GError + ('s \<times> nat)"
  soup_session_request :: "string \<Rightarrow> GError + 'rq"
  soup_request_send :: "'w \<Rightarrow> 'rq \<Rightarrow> (GError + 's) \<times> 'w"
  soup_request_get_content_length :: "'rq \<Rightarrow> int"
  cancellable_is_cancelled :: "'w \<Rightarrow> bool"

subsection \<open>repair_object\<close>

text \<open>
  One round of the loop over \<open>repair_remotes\<close>, for the remote \<open>remote\<close>. The round ends
  in \<open>continue\<close>, that is \<open>Continue\<close>, or in a \<open>return\<close> of the whole function.
\<close>

datatype loop_exit = Continue | Return bool

definition repair_failed :: "string \<Rightarrow> string \<Rightarrow> string \<Rightarrow> string" where
  "repair_failed type checksum remote =
     ''repair of '' @ type @ '' '' @ checksum @ '' from '' @ remote @ '' failed, ''"

definition repair_from_remote ::
  "('w, 'v, 's, 'fi, 'rq) ostree_env \<Rightarrow> fsck_options \<Rightarrow> string \<Rightarrow> OstreeObjectType \<Rightarrow> string
    \<Rightarrow> string \<Rightarrow> 'w run_state \<Rightarrow> loop_exit \<times> 'w run_state" where
  "repair_from_remote env opts checksum objtype relative_path remote st =
     (let type = object_type_to_string env objtype in
      case repo_remote_get_url env (repo st) remote of
        Inl error \<Rightarrow>
          (Continue, g_printerr (repair_failed type checksum remote
             @ ''failed to get a URL for remote: '' @ message error) st)
      | Inr server_url \<Rightarrow>
         (let url = server_url @ ''/'' @ relative_path in
          case soup_session_request env url of
            Inl error \<Rightarrow>
              (Continue, g_printerr (repair_failed type checksum remote
                 @ ''failed to get a request to URL '' @ url @ '': '' @ message error) st)
          | Inr request \<Rightarrow>
             (case soup_request_send env (repo st) request of
                (Inl error, w1) \<Rightarrow>
                  if cancellable_is_cancelled env w1 then (Return False, st\<lparr>repo := w1\<rparr>)
                  else (Continue, g_printerr (repair_failed type checksum remote
                     @ ''failed to download the object from URL '' @ url @ '': '' @ message error)
                     (st\<lparr>repo := w1\<rparr>))
              | (Inr stream, w1) \<Rightarrow>
                 (case content_stream_parse env w1 stream
                         (soup_request_get_content_length env request) of
                    Inl error \<Rightarrow>
                      (Continue, g_printerr (repair_failed type checksum remote
                         @ ''failed to parse the content stream: '' @ message error)
                         (st\<lparr>repo := w1\<rparr>))
                  | Inr (file_stream, file_info, xattrs) \<Rightarrow>
                     (case raw_file_to_content_stream env w1 file_stream file_info xattrs of
                        Inl error \<Rightarrow>
                          (Continue, g_printerr (repair_failed type checksum remote
                             @ ''failed to create a content stream: '' @ message error)
                             (st\<lparr>repo := w1\<rparr>))
                      | Inr (content_stream, content_len) \<Rightarrow>
                         (case repo_write_content env w1 checksum content_stream content_len of
                            (Some error, w2) \<Rightarrow>
                              (let w3 = (if opt_delete opts
                                         then snd (repo_delete_object env w2 objtype checksum)
                                         else w2)
                               in (Continue, g_printerr (repair_failed type checksum remote
                                     @ ''failed to write object to the repository: ''
                                     @ message error) (st\<lparr>repo := w3\<rparr>)))
                          | (None, w2) \<Rightarrow> (Return True, st\<lparr>repo := w2\<rparr>)))))))"

text \<open>The loop \<open>for (iter = repair_remotes; *iter; ++iter)\<close>, with the \<open>return FALSE\<close> after it.\<close>

fun repair_loop ::
  "('w, 'v, 's, 'fi, 'rq) ostree_env \<Rightarrow> fsck_options \<Rightarrow> string \<Rightarrow> OstreeObjectType \<Rightarrow> string
    \<Rightarrow> string list \<Rightarrow> 'w run_state \<Rightarrow> bool \<times> 'w run_state" where
  "repair_loop env opts checksum objtype relative_path [] st = (False, st)"
| "repair_loop env opts checksum objtype relative_path (remote # iter) st =
     (case repair_from_remote env opts checksum objtype relative_path remote st of
        (Continue, st1) \<Rightarrow> repair_loop env opts checksum objtype relative_path iter st1
      | (Return b, st1) \<Rightarrow> (b, st1))"

definition repair_object ::
  "('w, 'v, 's, 'fi, 'rq) ostree_env \<Rightarrow> fsck_options \<Rightarrow> string list \<Rightarrow> string
    \<Rightarrow> OstreeObjectType \<Rightarrow> 'w run_state \<Rightarrow> bool \<times> 'w run_state" where
  "repair_object env opts repair_remotes checksum objtype st =
     (if objtype \<noteq> OSTREE_OBJECT_TYPE_FILE
      then (False, g_printerr (''repair of '' @ object_type_to_string env objtype @ '' ''
                                 @ checksum @ '' failed, not implenented'') st)
      else repair_loop env opts checksum objtype
             (get_relative_object_path env checksum objtype True) repair_remotes st)"

subsection \<open>load_and_fsck_one_object\<close>

text \<open>
  The first half of the function, up to \<open>if (missing)\<close>: the object is loaded and its
  structure validated. The result is \<open>Inl\<close> the error at a \<open>goto out\<close>, or \<open>Inr\<close> the
  locals \<open>missing\<close>, \<open>input\<close>, \<open>file_info\<close> and \<open>xattrs\<close>. In the metadata branch a load error
  other than "not found" stays in \<open>temp_error\<close>: \<open>*error\<close> is not set when the function
  returns FALSE.
\<close>

type_synonym ('v, 's, 'fi) loaded = "bool \<times> 's option \<times> 'fi option \<times> 'v option"

definition object_missing :: "string \<Rightarrow> string \<Rightarrow> string" where
  "object_missing checksum type = ''Object missing: '' @ checksum @ ''.'' @ type @ ''\<newline>''"

definition validate_metadata ::
  "('w, 'v, 's, 'fi, 'rq) ostree_env \<Rightarrow> string \<Rightarrow> OstreeObjectType \<Rightarrow> 'v \<Rightarrow> GError option" where
  "validate_metadata env checksum objtype metadata =
     (if objtype = OSTREE_OBJECT_TYPE_COMMIT then
        g_prefix_error (validate_structureof_commit env metadata)
          (''While validating commit metadata '' @ [CHR 0x27] @ checksum @ [CHR 0x27] @ '': '')
      else if objtype = OSTREE_OBJECT_TYPE_DIR_TREE then
        g_prefix_error (validate_structureof_dirtree env metadata)
          (''While validating directory tree '' @ [CHR 0x27] @ checksum @ [CHR 0x27] @ '': '')
      else if objtype = OSTREE_OBJECT_TYPE_DIR_META then
        g_prefix_error (validate_structureof_dirmeta env metadata)
          (''While validating directory metadata '' @ [CHR 0x27] @ checksum @ [CHR 0x27] @ '': '')
      else None)"

definition load_object ::
  "('w, 'v, 's, 'fi, 'rq) ostree_env \<Rightarrow> string \<Rightarrow> OstreeObjectType \<Rightarrow> 'w run_state
    \<Rightarrow> (GError option + ('v, 's, 'fi) loaded) \<times> 'w run_state" where
  "load_object env checksum objtype st =
     (if OSTREE_OBJECT_TYPE_IS_META objtype then
        (case repo_load_variant env (repo st) objtype checksum of
           Inl temp_error \<Rightarrow>
             if g_error_matches temp_error G_IO_ERROR_NOT_FOUND
             then (Inr (True, None, None, None),
                   g_printerr (object_missing checksum (object_type_to_string env objtype)) st)
             else (Inl (g_prefix_error None (''Loading metadata object '' @ checksum @ '': '')), st)
         | Inr metadata \<Rightarrow>
            (case validate_metadata env checksum objtype metadata of
               Some error \<Rightarrow> (Inl (Some error), st)
             | None \<Rightarrow>
                 (Inr (False, Some (memory_input_stream_of_variant env metadata), None, None), st)))
      else
        (case repo_load_file env (repo st) checksum of
           Inl temp_error \<Rightarrow>
             if g_error_matches temp_error G_IO_ERROR_NOT_FOUND
             then (Inr (True, None, None, None),
                   g_printerr (object_missing checksum (object_type_to_string env objtype)) st)
             else (Inl (g_prefix_error (Some temp_error)
                          (''Loading file object '' @ checksum @ '': '')), st)
         | Inr (input, file_info, xattrs) \<Rightarrow>
            (case g_prefix_error
                    (validate_structureof_file_mode env (file_info_unix_mode env file_info))
                    (''While validating file '' @ [CHR 0x27] @ checksum @ [CHR 0x27] @ '': '') of
               Some error \<Rightarrow> (Inl (Some error), st)
             | None \<Rightarrow> (Inr (False, Some input, Some file_info, Some xattrs), st))))"

text \<open>
  \<open>if (repair_remotes == NULL || !repair_object (...)) *out_found_corruption = TRUE\<close>:
  the statement that both remediation branches end in.
\<close>

definition repair_or_flag ::
  "('w, 'v, 's, 'fi, 'rq) ostree_env \<Rightarrow> fsck_options \<Rightarrow> string list option \<Rightarrow> string
    \<Rightarrow> OstreeObjectType \<Rightarrow> bool \<Rightarrow> 'w run_state \<Rightarrow> bool \<times> 'w run_state" where
  "repair_or_flag env opts repair_remotes checksum objtype found_corruption st =
     (case repair_remotes of
        None \<Rightarrow> (True, st)
      | Some remotes \<Rightarrow>
         (case repair_object env opts remotes checksum objtype st of
            (True, st1) \<Rightarrow> (found_corruption, st1)
          | (False, st1) \<Rightarrow> (True, st1)))"

definition corrupted_object :: "string \<Rightarrow> string \<Rightarrow> string \<Rightarrow> string" where
  "corrupted_object checksum type tmp_checksum =
     ''corrupted object '' @ checksum @ ''.'' @ type @ ''; actual checksum: '' @ tmp_checksum"

text \<open>
  The whole function. The result is the return value with \<open>*error\<close> (\<open>Inr ()\<close> is TRUE),
  the flag \<open>*out_found_corruption\<close> and the state.
\<close>

definition load_and_fsck_one_object ::
  "('w, 'v, 's, 'fi, 'rq) ostree_env \<Rightarrow> fsck_options \<Rightarrow> string \<Rightarrow> OstreeObjectType
    \<Rightarrow> string list option \<Rightarrow> bool \<Rightarrow> 'w run_state
    \<Rightarrow> (GError option + unit) \<times> bool \<times> 'w run_state" where
  "load_and_fsck_one_object env opts checksum objtype repair_remotes found_corruption st =
     (case load_object env checksum objtype st of
        (Inl error, st1) \<Rightarrow> (Inl error, found_corruption, st1)
      | (Inr (missing, input, file_info, xattrs), st1) \<Rightarrow>
         if missing then
           (case repair_or_flag env opts repair_remotes checksum objtype found_corruption st1 of
              (found_corruption1, st2) \<Rightarrow> (Inr (), found_corruption1, st2))
         else
           (case checksum_file_from_input env (repo st1) file_info xattrs input objtype of
              Inl error \<Rightarrow> (Inl (Some error), found_corruption, st1)
            | Inr computed_csum \<Rightarrow>
               (let tmp_checksum = checksum_from_bytes env computed_csum in
                if checksum \<noteq> tmp_checksum then
                  (let msg = corrupted_object checksum (object_type_to_string env objtype)
                               tmp_checksum in
                   if opt_delete opts \<or> repair_remotes \<noteq> None then
                     (let st2 = g_printerr (msg @ ''\<newline>'') st1;
                          st3 = st2\<lparr>repo := snd (repo_delete_object env (repo st2) objtype checksum)\<rparr>
                      in case repair_or_flag env opts repair_remotes checksum objtype
                                found_corruption st3 of
                           (found_corruption1, st4) \<Rightarrow> (Inr (), found_corruption1, st4))
                   else (Inl (Some (GError G_IO_ERROR_FAILED msg)), found_corruption, st1))
                else (Inr (), found_corruption, st1))))"

subsection \<open>fsck_reachable_objects_from_commits\<close>

text \<open>
  A GHashTable of object names is the list of its keys in the order its iterator yields
  them. The order GLib chooses is not specified; no theorem below depends on it. Inserting
  a key that is present leaves the size as it is.
\<close>

definition g_hash_table_insert :: "object_name \<Rightarrow> object_name list \<Rightarrow> object_name list" where
  "g_hash_table_insert k table = (if k \<in> set table then table else table @ [k])"

text \<open>The conversion \<open>%u\<close> of a guint.\<close>

definition digit_char :: "nat \<Rightarrow> char" where
  "digit_char d = ''0123456789'' ! (d mod 10)"

fun string_of_uint :: "nat \<Rightarrow> string" where
  "string_of_uint n =
     (if n < 10 then [digit_char n] else string_of_uint (n div 10) @ [digit_char (n mod 10)])"

declare string_of_uint.simps [simp del]

text \<open>
  How a run ends when it does not return TRUE: it returns FALSE, with \<open>*error\<close> set or
  not, or \<open>g_assert\<close> aborts the process.
\<close>

datatype fsck_failure = Failed "GError option" | Assertion_failed

text \<open>The first loop: the union of what is reachable from each commit of \<open>commits\<close>.\<close>

fun traverse_commits ::
  "('w, 'v, 's, 'fi, 'rq) ostree_env \<Rightarrow> 'w \<Rightarrow> object_name list \<Rightarrow> object_name list
    \<Rightarrow> fsck_failure + object_name list" where
  "traverse_commits env w [] reachable_objects = Inr reachable_objects"
| "traverse_commits env w ((checksum, objtype) # commits) reachable_objects =
     (if objtype \<noteq> OSTREE_OBJECT_TYPE_COMMIT then Inl Assertion_failed
      else case repo_traverse_commit_union env w checksum 0 reachable_objects of
             Inl error \<Rightarrow> Inl (Failed (Some error))
           | Inr reachable_objects1 \<Rightarrow> traverse_commits env w commits reachable_objects1)"

definition progress_line :: "nat \<Rightarrow> nat \<Rightarrow> string" where
  "progress_line i count =
     string_of_uint (i + 1) @ ''/'' @ string_of_uint count @ '' objects\<newline>''"

text \<open>
  The second loop, over the reachable objects, from the round with counter \<open>i\<close>. The
  counters are guint; \<open>i < count\<close> holds in every round, so that \<open>i + 1\<close> does not wrap.
\<close>

definition print_progress :: "nat \<Rightarrow> nat \<Rightarrow> nat \<Rightarrow> 'w run_state \<Rightarrow> 'w run_state" where
  "print_progress m count i st =
     (if m = 0 \<or> i mod m = 0 then g_print (progress_line i count) st else st)"

fun fsck_objects ::
  "('w, 'v, 's, 'fi, 'rq) ostree_env \<Rightarrow> fsck_options \<Rightarrow> string list option \<Rightarrow> nat \<Rightarrow> nat
    \<Rightarrow> object_name list \<Rightarrow> nat \<Rightarrow> bool \<Rightarrow> 'w run_state
    \<Rightarrow> (GError option + unit) \<times> bool \<times> 'w run_state" where
  "fsck_objects env opts repair_remotes m count [] i found_corruption st =
     (Inr (), found_corruption, st)"
| "fsck_objects env opts repair_remotes m count ((checksum, objtype) # objects) i
      found_corruption st =
     (case load_and_fsck_one_object env opts checksum objtype repair_remotes
             found_corruption st of
        (Inl error, found_corruption1, st1) \<Rightarrow> (Inl error, found_corruption1, st1)
      | (Inr u, found_corruption1, st1) \<Rightarrow>
          fsck_objects env opts repair_remotes m count objects (i + 1) found_corruption1
            (print_progress m count i st1))"

definition fsck_reachable_objects_from_commits ::
  "('w, 'v, 's, 'fi, 'rq) ostree_env \<Rightarrow> fsck_options \<Rightarrow> object_name list
    \<Rightarrow> string list option \<Rightarrow> bool \<Rightarrow> 'w run_state
    \<Rightarrow> (fsck_failure + unit) \<times> bool \<times> 'w run_state" where
  "fsck_reachable_objects_from_commits env opts commits repair_remotes found_corruption st =
     (case traverse_commits env (repo st) commits [] of
        Inl failure \<Rightarrow> (Inl failure, found_corruption, st)
      | Inr reachable_objects \<Rightarrow>
         (let count = length reachable_objects;
              m = count div 10
          in case fsck_objects env opts repair_remotes m count reachable_objects 0
                    found_corruption st of
               (Inl error, found_corruption1, st1) \<Rightarrow> (Inl (Failed error), found_corruption1, st1)
             | (Inr u, found_corruption1, st1) \<Rightarrow> (Inr (), found_corruption1, st1)))"

subsection \<open>prepare_repair_remotes\<close>

fun strv_contains :: "string list \<Rightarrow> string \<Rightarrow> bool" where
  "strv_contains [] needle = False"
| "strv_contains (s # haystack) needle = (if s = needle then True else strv_contains haystack needle)"

text \<open>The loop that asks for the URL of each named remote and fails at the first error.\<close>

fun check_remote_urls ::
  "('w, 'v, 's, 'fi, 'rq) ostree_env \<Rightarrow> 'w \<Rightarrow> string list \<Rightarrow> GError option" where
  "check_remote_urls env w [] = None"
| "check_remote_urls env w (remote # iter) =
     (case repo_remote_get_url env w remote of
        Inl error \<Rightarrow> Some error
      | Inr url \<Rightarrow> check_remote_urls env w iter)"

definition dash_error :: string where
  "dash_error =
     ''Either list repair remotes explicitly or use - (dash) to use all available remotes''"

definition prepare_repair_remotes ::
  "('w, 'v, 's, 'fi, 'rq) ostree_env \<Rightarrow> fsck_options \<Rightarrow> 'w \<Rightarrow> GError + string list option" where
  "prepare_repair_remotes env opts w =
     (case opt_repair_remotes opts of
        None \<Rightarrow> Inr None
      | Some [] \<Rightarrow> Inr None
      | Some remotes \<Rightarrow>
          if strv_contains remotes ''-'' then
            (if length remotes > 1 then Inl (GError G_IO_ERROR_FAILED dash_error)
             else Inr (repo_remote_list env w))
          else
            (case check_remote_urls env w remotes of
               Some error \<Rightarrow> Inl error
             | None \<Rightarrow> Inr (Some remotes)))"

subsection \<open>ostree_builtin_fsck\<close>

text \<open>
  The loop over the listing of all objects. It only reads the repository. The locals it
  updates are the table \<open>commits\<close>, the counter \<open>n_partial\<close> and the array \<open>tombstones\<close>.
\<close>

definition stage_tombstone ::
  "('w, 'v, 's, 'fi, 'rq) ostree_env \<Rightarrow> fsck_options \<Rightarrow> 'w \<Rightarrow> string \<Rightarrow> 'v \<Rightarrow> string list
    \<Rightarrow> GError + string list" where
  "stage_tombstone env opts w checksum commit tombstones =
     (if opt_add_tombstones opts then
        (case commit_get_parent env commit of
           None \<Rightarrow> Inr tombstones
         | Some parent \<Rightarrow>
            (case repo_load_variant env w OSTREE_OBJECT_TYPE_COMMIT parent of
               Inl local_error \<Rightarrow>
                 if g_error_matches local_error G_IO_ERROR_NOT_FOUND
                 then Inr (tombstones @ [checksum])
                 else Inl local_error
             | Inr parent_commit \<Rightarrow> Inr tombstones))
      else Inr tombstones)"

fun census ::
  "('w, 'v, 's, 'fi, 'rq) ostree_env \<Rightarrow> fsck_options \<Rightarrow> 'w \<Rightarrow> object_name list
    \<Rightarrow> object_name list \<Rightarrow> nat \<Rightarrow> string list
    \<Rightarrow> GError + (object_name list \<times> nat \<times> string list)" where
  "census env opts w [] commits n_partial tombstones = Inr (commits, n_partial, tombstones)"
| "census env opts w ((checksum, objtype) # objects) commits n_partial tombstones =
     (if objtype = OSTREE_OBJECT_TYPE_COMMIT then
        (case repo_load_commit env w checksum of
           Inl error \<Rightarrow> Inl error
         | Inr (commit, commitstate) \<Rightarrow>
            (case stage_tombstone env opts w checksum commit tombstones of
               Inl error \<Rightarrow> Inl error
             | Inr tombstones1 \<Rightarrow>
                 if commitstate AND COMMIT_STATE_PARTIAL env \<noteq> 0
                 then census env opts w objects commits (n_partial + 1) tombstones1
                 else census env opts w objects
                        (g_hash_table_insert (checksum, objtype) commits) n_partial tombstones1))
      else census env opts w objects commits n_partial tombstones)"

text \<open>The loop that deletes each staged commit, and the branch \<open>if (opt_add_tombstones)\<close>
  around it.\<close>

fun delete_tombstoned ::
  "('w, 'v, 's, 'fi, 'rq) ostree_env \<Rightarrow> string list \<Rightarrow> 'w run_state
    \<Rightarrow> (GError + unit) \<times> 'w run_state" where
  "delete_tombstoned env [] st = (Inr (), st)"
| "delete_tombstoned env (checksum # tombstones) st =
     (let st1 = g_print (''Adding tombstone for commit '' @ checksum @ ''\<newline>'') st in
      case repo_delete_object env (repo st1) OSTREE_OBJECT_TYPE_COMMIT checksum of
        (Some error, w) \<Rightarrow> (Inl error, st1\<lparr>repo := w\<rparr>)
      | (None, w) \<Rightarrow> delete_tombstoned env tombstones (st1\<lparr>repo := w\<rparr>))"

definition add_tombstones ::
  "('w, 'v, 's, 'fi, 'rq) ostree_env \<Rightarrow> string list \<Rightarrow> 'w run_state
    \<Rightarrow> (GError + unit) \<times> 'w run_state" where
  "add_tombstones env tombstones st =
     (if tombstones \<noteq> [] then
        (case enable_tombstone_commits env (repo st) of
           (Some error, w) \<Rightarrow> (Inl error, st\<lparr>repo := w\<rparr>)
         | (None, w) \<Rightarrow> delete_tombstoned env tombstones (st\<lparr>repo := w\<rparr>))
      else delete_tombstoned env tombstones st)"

definition after_verification ::
  "('w, 'v, 's, 'fi, 'rq) ostree_env \<Rightarrow> fsck_options \<Rightarrow> string list \<Rightarrow> nat \<Rightarrow> bool
    \<Rightarrow> 'w run_state \<Rightarrow> (fsck_failure + unit) \<times> 'w run_state" where
  "after_verification env opts tombstones n_partial found_corruption st =
     (case (if opt_add_tombstones opts then add_tombstones env tombstones st
            else if n_partial > 0
                 then (Inr (), g_print (string_of_uint n_partial
                                          @ '' partial commits not verified\<newline>'') st)
                 else (Inr (), st)) of
        (Inl error, st1) \<Rightarrow> (Inl (Failed (Some error)), st1)
      | (Inr u, st1) \<Rightarrow>
          if found_corruption
          then (Inl (Failed (Some (GError G_IO_ERROR_FAILED
                                     ''Repository corruption encountered''))), st1)
          else (Inr (), st1))"

text \<open>
  The command, from the point where the options are parsed and the repository is open.
  \<open>announce\<close> is \<open>if (!opt_quiet) g_print (...)\<close>.
\<close>

definition announce :: "fsck_options \<Rightarrow> string \<Rightarrow> 'w run_state \<Rightarrow> 'w run_state" where
  "announce opts s st = (if \<not> opt_quiet opts then g_print s st else st)"

definition verifying_commits :: "nat \<Rightarrow> string" where
  "verifying_commits n =
     ''Verifying content integrity of '' @ string_of_uint n @ '' commit objects...\<newline>''"

definition ostree_builtin_fsck ::
  "('w, 'v, 's, 'fi, 'rq) ostree_env \<Rightarrow> fsck_options \<Rightarrow> 'w run_state
    \<Rightarrow> (fsck_failure + unit) \<times> 'w run_state" where
  "ostree_builtin_fsck env opts st =
     (case prepare_repair_remotes env opts (repo st) of
        Inl error \<Rightarrow> (Inl (Failed (Some error)), st)
      | Inr repair_remotes \<Rightarrow>
         (let st1 = announce opts ''Enumerating objects...\<newline>'' st in
          case repo_list_objects env (repo st1) of
            Inl error \<Rightarrow> (Inl (Failed (Some error)), st1)
          | Inr objects \<Rightarrow>
             (case census env opts (repo st1) objects [] 0 [] of
                Inl error \<Rightarrow> (Inl (Failed (Some error)), st1)
              | Inr (commits, n_partial, tombstones) \<Rightarrow>
                 (let st2 = announce opts (verifying_commits (length commits)) st1
                  in case fsck_reachable_objects_from_commits env opts commits repair_remotes
                            False st2 of
                       (Inl failure, found_corruption, st3) \<Rightarrow> (Inl failure, st3)
                     | (Inr u, found_corruption, st3) \<Rightarrow>
                         after_verification env opts tombstones n_partial found_corruption
                           st3))))"

text \<open>The state in which the loop over the reachable objects starts.\<close>

definition verification_start ::
  "fsck_options \<Rightarrow> object_name list \<Rightarrow> 'w run_state \<Rightarrow> 'w run_state" where
  "verification_start opts commits st =
     announce opts (verifying_commits (length commits))
       (announce opts ''Enumerating objects...\<newline>'' st)"

subsection \<open>A small repository\<close>

text \<open>
  A concrete library, to run the checker on: a store that maps object names to objects, a
  walker that follows a table of edges, remotes that serve content by URL, and a log of the
  calls that wrote to the store or went to the network. An object carries the digest of the
  content that is really stored; its name is intact when it is the hexadecimal form of that
  digest.
\<close>

datatype demo_call =
    Deleted OstreeObjectType string
  | Written string
  | Sent string
  | Tombstones_enabled

record demo_object =
  obj_digest :: "8 word list"
  obj_parent :: "string option"
  obj_state :: "32 word"
  obj_mode :: "32 word"

record demo_world =
  stored :: "(object_name \<times> demo_object) list"
  edges :: "(string \<times> object_name list) list"
  remote_urls :: "(string \<times> string) list"
  served :: "(string \<times> 8 word list) list"
  cancelled :: bool
  calls :: "demo_call list"

definition hex_digit :: "nat \<Rightarrow> char" where
  "hex_digit n = ''0123456789abcdef'' ! n"

definition hex_of_bytes :: "8 word list \<Rightarrow> string" where
  "hex_of_bytes bs = concat (map (\<lambda>b. [hex_digit (unat b div 16), hex_digit (unat b mod 16)]) bs)"

fun demo_type_to_string :: "OstreeObjectType \<Rightarrow> string" where
  "demo_type_to_string OSTREE_OBJECT_TYPE_FILE = ''file''"
| "demo_type_to_string OSTREE_OBJECT_TYPE_DIR_TREE = ''dirtree''"
| "demo_type_to_string OSTREE_OBJECT_TYPE_DIR_META = ''dirmeta''"
| "demo_type_to_string OSTREE_OBJECT_TYPE_COMMIT = ''commit''"

definition demo_not_found :: GError where
  "demo_not_found = GError G_IO_ERROR_NOT_FOUND ''No such file or directory''"

definition demo_load :: "demo_world \<Rightarrow> OstreeObjectType \<Rightarrow> string \<Rightarrow> GError + demo_object" where
  "demo_load w t c =
     (case map_of (stored w) (c, t) of None \<Rightarrow> Inl demo_not_found | Some ob \<Rightarrow> Inr ob)"

definition demo_delete ::
  "demo_world \<Rightarrow> OstreeObjectType \<Rightarrow> string \<Rightarrow> GError option \<times> demo_world" where
  "demo_delete w t c =
     (if map_of (stored w) (c, t) = None then Some demo_not_found else None,
      w\<lparr>stored := filter (\<lambda>entry. fst entry \<noteq> (c, t)) (stored w),
        calls := calls w @ [Deleted t c]\<rparr>)"

definition demo_write ::
  "demo_world \<Rightarrow> string \<Rightarrow> 8 word list \<Rightarrow> nat \<Rightarrow> GError option \<times> demo_world" where
  "demo_write w c content len =
     (if hex_of_bytes content = c
      then (None,
            w\<lparr>stored := stored w @ [((c, OSTREE_OBJECT_TYPE_FILE),
                  \<lparr>obj_digest = content, obj_parent = None, obj_state = 0, obj_mode = 0x81A4\<rparr>)],
              calls := calls w @ [Written c]\<rparr>)
      else (Some (GError G_IO_ERROR_FAILED ''Corrupted object''),
            w\<lparr>calls := calls w @ [Written c]\<rparr>))"

definition demo_send :: "demo_world \<Rightarrow> string \<Rightarrow> (GError + 8 word list) \<times> demo_world" where
  "demo_send w url =
     (if cancelled w then Inl (GError G_ERROR_OTHER ''Operation was cancelled'')
      else (case map_of (served w) url of
              None \<Rightarrow> Inl (GError G_IO_ERROR_FAILED ''Not Found'')
            | Some content \<Rightarrow> Inr content),
      w\<lparr>calls := calls w @ [Sent url]\<rparr>)"

definition demo_walk ::
  "demo_world \<Rightarrow> string \<Rightarrow> int \<Rightarrow> object_name list \<Rightarrow> GError + object_name list" where
  "demo_walk w c maxdepth reachable =
     Inr (foldl (\<lambda>table k. g_hash_table_insert k table) reachable
            ((c, OSTREE_OBJECT_TYPE_COMMIT)
               # (case map_of (edges w) c of None \<Rightarrow> [] | Some ks \<Rightarrow> ks)))"

definition demo_file_mode_ok :: "32 word \<Rightarrow> GError option" where
  "demo_file_mode_ok m =
     (if m AND 0xF000 = 0x8000 \<or> m AND 0xF000 = 0xA000 then None
      else Some (GError G_IO_ERROR_FAILED ''Invalid file metadata mode; not a valid file type''))"

definition demo_env ::
  "(demo_world, demo_object, 8 word list, 32 word, string) ostree_env" where
  "demo_env =
     \<lparr>object_type_to_string = demo_type_to_string,
      get_relative_object_path =
        (\<lambda>c t compressed. ''objects/'' @ take 2 c @ ''/'' @ drop 2 c @ ''.'' @ demo_type_to_string t
                             @ (if compressed then ''z'' else [])),
      checksum_from_bytes = hex_of_bytes,
      repo_remote_get_url =
        (\<lambda>w remote. case map_of (remote_urls w) remote of
                       None \<Rightarrow> Inl demo_not_found | Some url \<Rightarrow> Inr url),
      repo_remote_list =
        (\<lambda>w. if remote_urls w = [] then None else Some (map fst (remote_urls w))),
      repo_list_objects = (\<lambda>w. Inr (map fst (stored w))),
      repo_load_commit =
        (\<lambda>w c. case demo_load w OSTREE_OBJECT_TYPE_COMMIT c of
                  Inl e \<Rightarrow> Inl e | Inr ob \<Rightarrow> Inr (ob, obj_state ob)),
      repo_load_variant = demo_load,
      repo_load_file =
        (\<lambda>w c. case demo_load w OSTREE_OBJECT_TYPE_FILE c of
                  Inl e \<Rightarrow> Inl e | Inr ob \<Rightarrow> Inr (obj_digest ob, obj_mode ob, ob)),
      repo_traverse_commit_union = demo_walk,
      repo_delete_object = demo_delete,
      repo_write_content = demo_write,
      enable_tombstone_commits = (\<lambda>w. (None, w\<lparr>calls := calls w @ [Tombstones_enabled]\<rparr>)),
      commit_get_parent = obj_parent,
      COMMIT_STATE_PARTIAL = 1,
      validate_structureof_commit = (\<lambda>v. None),
      validate_structureof_dirtree = (\<lambda>v. None),
      validate_structureof_dirmeta = (\<lambda>v. None),
      validate_structureof_file_mode = demo_file_mode_ok,
      file_info_unix_mode = (\<lambda>m. m),
      memory_input_stream_of_variant = obj_digest,
      checksum_file_from_input =
        (\<lambda>w file_info xattrs input t.
           case input of None \<Rightarrow> Inl (GError G_IO_ERROR_FAILED ''no input'') | Some s \<Rightarrow> Inr s),
      content_stream_parse =
        (\<lambda>w s len. Inr (s, 0x81A4,
                        \<lparr>obj_digest = [], obj_parent = None, obj_state = 0, obj_mode = 0\<rparr>)),
      raw_file_to_content_stream = (\<lambda>w s file_info xattrs. Inr (s, length s)),
      soup_session_request = (\<lambda>url. Inr url),
      soup_request_send = demo_send,
      soup_request_get_content_length = (\<lambda>request. 0),
      cancellable_is_cancelled = cancelled\<rparr>"

text \<open>
  The stores of the examples hold objects named by two hexadecimal digits: files \<open>aa\<close>,
  \<open>bb\<close>, \<open>cc\<close>, a directory metadata object \<open>dd\<close> and commits \<open>c1\<close> to \<open>c4\<close>. Two
  remotes are configured; \<open>mirror\<close> serves the file \<open>bb\<close> and \<open>origin\<close> serves the
  directory metadata \<open>dd\<close>.
\<close>

definition demo_file :: "8 word list \<Rightarrow> 32 word \<Rightarrow> demo_object" where
  "demo_file d m = \<lparr>obj_digest = d, obj_parent = None, obj_state = 0, obj_mode = m\<rparr>"

definition demo_commit :: "8 word list \<Rightarrow> string option \<Rightarrow> 32 word \<Rightarrow> demo_object" where
  "demo_commit d p s = \<lparr>obj_digest = d, obj_parent = p, obj_state = s, obj_mode = 0\<rparr>"

definition demo_store ::
  "(object_name \<times> demo_object) list \<Rightarrow> (string \<times> object_name list) list
    \<Rightarrow> demo_world run_state" where
  "demo_store objects links =
     \<lparr>repo = \<lparr>stored = objects,
               edges = links,
               remote_urls = [(''origin'', ''http://origin''), (''mirror'', ''http://mirror'')],
               served = [(''http://mirror/objects/bb/.filez'', [0xbb]),
                         (''http://origin/objects/dd/.dirmetaz'', [0xdd])],
               cancelled = False,
               calls = []\<rparr>,
      console = []\<rparr>"

definition demo_options :: "bool \<Rightarrow> bool \<Rightarrow> bool \<Rightarrow> string list option \<Rightarrow> fsck_options" where
  "demo_options quiet delete tombstones remotes =
     \<lparr>opt_quiet = quiet, opt_delete = delete, opt_add_tombstones = tombstones,
      opt_repair_remotes = remotes\<rparr>"

abbreviation FILE :: OstreeObjectType where "FILE \<equiv> OSTREE_OBJECT_TYPE_FILE"
abbreviation DIR_TREE :: OstreeObjectType where "DIR_TREE \<equiv> OSTREE_OBJECT_TYPE_DIR_TREE"
abbreviation DIR_META :: OstreeObjectType where "DIR_META \<equiv> OSTREE_OBJECT_TYPE_DIR_META"
abbreviation COMMIT :: OstreeObjectType where "COMMIT \<equiv> OSTREE_OBJECT_TYPE_COMMIT"

text \<open>A commit \<open>c1\<close> that reaches the intact file \<open>aa\<close>, the file \<open>bb\<close> whose stored content
  hashes to \<open>b0\<close>, and the directory metadata \<open>dd\<close>, which is not in the store.\<close>

definition corrupt_store :: "demo_world run_state" where
  "corrupt_store =
     demo_store [((''c1'', COMMIT), demo_commit [0xc1] None 0),
                 ((''aa'', FILE), demo_file [0xaa] 0x81A4),
                 ((''bb'', FILE), demo_file [0xb0] 0x81A4)]
                [(''c1'', [(''aa'', FILE), (''bb'', FILE), (''dd'', DIR_META)])]"

text \<open>A commit \<open>c1\<close> that reaches the intact file \<open>aa\<close>, the directory metadata \<open>dd\<close> and
  the file \<open>bb\<close>, of which only \<open>aa\<close> is in the store.\<close>

definition sparse_store :: "demo_world run_state" where
  "sparse_store =
     demo_store [((''c1'', COMMIT), demo_commit [0xc1] None 0),
                 ((''aa'', FILE), demo_file [0xaa] 0x81A4)]
                [(''c1'', [(''aa'', FILE), (''dd'', DIR_META), (''bb'', FILE)])]"

text \<open>A commit \<open>c4\<close> that reaches the file \<open>cc\<close>, stored with the mode of a block device,
  and the file \<open>bb\<close>, which is not in the store.\<close>

definition device_store :: "demo_world run_state" where
  "device_store =
     demo_store [((''c4'', COMMIT), demo_commit [0xc4] None 0),
                 ((''cc'', FILE), demo_file [0xcc] 0x61A4)]
                [(''c4'', [(''cc'', FILE), (''bb'', FILE)])]"

text \<open>The same store with one more remote, \<open>stale\<close>, which serves for the file \<open>bb\<close> content
  that hashes to \<open>b0\<close>, so that writing it under the name \<open>bb\<close> fails.\<close>

definition stale_store :: "demo_world run_state" where
  "stale_store =
     sparse_store\<lparr>repo := (repo sparse_store)
       \<lparr>remote_urls := [(''stale'', ''http://stale'')],
        served := [(''http://stale/objects/bb/.filez'', [0xb0])]\<rparr>\<rparr>"

text \<open>The same store when the run has been cancelled.\<close>

definition cancelled_store :: "demo_world run_state" where
  "cancelled_store = sparse_store\<lparr>repo := (repo sparse_store)\<lparr>cancelled := True\<rparr>\<rparr>"





text \<open>A commit \<open>c1\<close> that reaches the file \<open>aa\<close> and the directory metadata \<open>dd\<close>, all intact.\<close>

definition intact_store :: "demo_world run_state" where
  "intact_store =
     demo_store [((''c1'', COMMIT), demo_commit [0xc1] None 0),
                 ((''aa'', FILE), demo_file [0xaa] 0x81A4),
                 ((''dd'', DIR_META), demo_file [0xdd] 0)]
                [(''c1'', [(''aa'', FILE), (''dd'', DIR_META)])]"

subsection \<open>Notions of the specification\<close>

text \<open>The error with which loading an object fails, if it fails: the verifier's outcome
  Missing is the error "not found" here.\<close>

definition load_error ::
  "('w, 'v, 's, 'fi, 'rq) ostree_env \<Rightarrow> 'w \<Rightarrow> string \<Rightarrow> OstreeObjectType \<Rightarrow> GError option" where
  "load_error env w checksum objtype =
     (if OSTREE_OBJECT_TYPE_IS_META objtype
      then (case repo_load_variant env w objtype checksum of Inl e \<Rightarrow> Some e | Inr v \<Rightarrow> None)
      else (case repo_load_file env w checksum of Inl e \<Rightarrow> Some e | Inr f \<Rightarrow> None))"

text \<open>
  The sources of a list, tried in order from the state \<open>st\<close>, all fail: the result is the
  state after the last of them, and \<open>None\<close> when the round of one of them ends the loop.
\<close>

fun sources_fail ::
  "('w, 'v, 's, 'fi, 'rq) ostree_env \<Rightarrow> fsck_options \<Rightarrow> string \<Rightarrow> OstreeObjectType \<Rightarrow> string
    \<Rightarrow> string list \<Rightarrow> 'w run_state \<Rightarrow> 'w run_state option" where
  "sources_fail env opts checksum objtype relative_path [] st = Some st"
| "sources_fail env opts checksum objtype relative_path (remote # remotes) st =
     (case repair_from_remote env opts checksum objtype relative_path remote st of
        (Continue, st1) \<Rightarrow> sources_fail env opts checksum objtype relative_path remotes st1
      | (Return b, st1) \<Rightarrow> None)"






section \<open>Properties\<close>

subsection \<open>Auxiliary facts\<close>

lemma repo_g_print [simp]: "repo (g_print s st) = repo st"
  by (simp add: g_print_def)

lemma repo_g_printerr [simp]: "repo (g_printerr s st) = repo st"
  by (simp add: g_printerr_def)

lemma repo_announce [simp]: "repo (announce opts s st) = repo st"
  by (simp add: announce_def)

lemma repo_print_progress [simp]: "repo (print_progress m count i st) = repo st"
  by (simp add: print_progress_def)

lemma repo_verification_start [simp]: "repo (verification_start opts commits st) = repo st"
  by (simp add: verification_start_def)

lemma fsck_objects_append:
  "fsck_objects env opts rr m count (pre @ rest) i fc st =
     (case fsck_objects env opts rr m count pre i fc st of
        (Inl e, fc1, st1) \<Rightarrow> (Inl e, fc1, st1)
      | (Inr u, fc1, st1) \<Rightarrow> fsck_objects env opts rr m count rest (i + length pre) fc1 st1)"
proof (induction pre arbitrary: i fc st)
  case Nil
  show ?case by simp
next
  case (Cons obj pre)
  obtain checksum objtype where obj: "obj = (checksum, objtype)" by (cases obj)
  obtain r fc1 st1 where
    one: "load_and_fsck_one_object env opts checksum objtype rr fc st = (r, fc1, st1)"
    by (cases "load_and_fsck_one_object env opts checksum objtype rr fc st") auto
  have len: "i + length (obj # pre) = Suc i + length pre" by simp
  show ?case
  proof (cases r)
    case (Inl e)
    then show ?thesis by (simp add: obj one)
  next
    case (Inr u)
    then show ?thesis unfolding len by (simp add: obj one Cons.IH)
  qed
qed

lemma builtin_unfold:
  assumes "prepare_repair_remotes env opts (repo st) = Inr repair_remotes"
      and "repo_list_objects env (repo st) = Inr objects"
      and "census env opts (repo st) objects [] 0 [] = Inr (commits, n_partial, tombstones)"
  shows "ostree_builtin_fsck env opts st =
           (case fsck_reachable_objects_from_commits env opts commits repair_remotes False
                   (verification_start opts commits st) of
              (Inl failure, found_corruption, st3) \<Rightarrow> (Inl failure, st3)
            | (Inr u, found_corruption, st3) \<Rightarrow>
                after_verification env opts tombstones n_partial found_corruption st3)"
  using assms by (simp add: ostree_builtin_fsck_def verification_start_def Let_def)

lemma reachable_unfold:
  assumes "traverse_commits env (repo st) commits [] = Inr reachable"
  shows "fsck_reachable_objects_from_commits env opts commits repair_remotes fc st =
           (case fsck_objects env opts repair_remotes (length reachable div 10) (length reachable)
                   reachable 0 fc st of
              (Inl error, fc1, st1) \<Rightarrow> (Inl (Failed error), fc1, st1)
            | (Inr u, fc1, st1) \<Rightarrow> (Inr (), fc1, st1))"
  using assms by (simp add: fsck_reachable_objects_from_commits_def Let_def)

lemma run_aborts_in_loop:
  assumes "prepare_repair_remotes env opts (repo st0) = Inr repair_remotes"
      and "repo_list_objects env (repo st0) = Inr objects"
      and "census env opts (repo st0) objects [] 0 [] = Inr (commits, n_partial, tombstones)"
      and "traverse_commits env (repo st0) commits [] = Inr (pre @ (checksum, objtype) # rest)"
      and "fsck_objects env opts repair_remotes (length (pre @ (checksum, objtype) # rest) div 10)
             (length (pre @ (checksum, objtype) # rest)) pre 0 False
             (verification_start opts commits st0) = (Inr (), fc, st)"
      and "load_and_fsck_one_object env opts checksum objtype repair_remotes fc st = (Inl e, fc1, st1)"
  shows "ostree_builtin_fsck env opts st0 = (Inl (Failed e), st1)"
proof -
  have "fsck_objects env opts repair_remotes (length (pre @ (checksum, objtype) # rest) div 10)
             (length (pre @ (checksum, objtype) # rest)) (pre @ (checksum, objtype) # rest) 0 False
             (verification_start opts commits st0) = (Inl e, fc1, st1)"
    using assms(5,6) by (simp add: fsck_objects_append)
  then show ?thesis
    using assms(1-4) by (simp add: builtin_unfold reachable_unfold)
qed


lemma load_object_keeps_state:
  "load_object env checksum objtype st = (Inr (False, input, file_info, xattrs), st1) \<Longrightarrow> st1 = st"
  by (auto simp: load_object_def split: if_splits sum.splits option.splits prod.splits)

text \<open>When the first half reports an object that is present and valid.\<close>

lemma load_object_valid_file:
  assumes "repo_load_file env (repo st) checksum = Inr (input, file_info, xattrs)"
      and "validate_structureof_file_mode env (file_info_unix_mode env file_info) = None"
  shows "load_object env checksum OSTREE_OBJECT_TYPE_FILE st
           = (Inr (False, Some input, Some file_info, Some xattrs), st)"
  using assms by (simp add: load_object_def OSTREE_OBJECT_TYPE_IS_META_def)

lemma load_object_valid_metadata:
  assumes "objtype \<noteq> OSTREE_OBJECT_TYPE_FILE"
      and "repo_load_variant env (repo st) objtype checksum = Inr metadata"
      and "validate_metadata env checksum objtype metadata = None"
  shows "load_object env checksum objtype st
           = (Inr (False, Some (memory_input_stream_of_variant env metadata), None, None), st)"
  using assms by (simp add: load_object_def OSTREE_OBJECT_TYPE_IS_META_def)

lemma one_object_mismatch:
  assumes "load_object env checksum objtype st = (Inr (False, input, file_info, xattrs), st1)"
      and "checksum_file_from_input env (repo st1) file_info xattrs input objtype = Inr computed_csum"
      and "checksum_from_bytes env computed_csum \<noteq> checksum"
      and "\<not> opt_delete opts"
  shows "load_and_fsck_one_object env opts checksum objtype None found_corruption st =
           (Inl (Some (GError G_IO_ERROR_FAILED
                         (''corrupted object '' @ checksum @ ''.''
                            @ object_type_to_string env objtype
                            @ ''; actual checksum: '' @ checksum_from_bytes env computed_csum))),
            found_corruption, st)"
proof -
  have "st1 = st" using assms(1) by (rule load_object_keeps_state)
  with assms show ?thesis
    by (simp add: load_and_fsck_one_object_def corrupted_object_def Let_def)
qed

lemma one_object_bad_mode:
  assumes "repo_load_file env (repo st) checksum = Inr (input, file_info, xattrs)"
      and "validate_structureof_file_mode env (file_info_unix_mode env file_info) = Some (GError c m)"
  shows "load_and_fsck_one_object env opts checksum OSTREE_OBJECT_TYPE_FILE repair_remotes
           found_corruption st =
           (Inl (Some (GError c (''While validating file '' @ [CHR 0x27] @ checksum @ [CHR 0x27]
                                   @ '': '' @ m))), found_corruption, st)"
  using assms
  by (simp add: load_and_fsck_one_object_def load_object_def OSTREE_OBJECT_TYPE_IS_META_def)


lemmas model_defs =
  load_and_fsck_one_object_def load_object_def validate_metadata_def repair_or_flag_def
  repair_object_def repair_from_remote_def repair_failed_def object_missing_def
  corrupted_object_def OSTREE_OBJECT_TYPE_IS_META_def g_error_matches_def g_print_def
  g_printerr_def announce_def verification_start_def verifying_commits_def progress_line_def
  print_progress_def
  fsck_reachable_objects_from_commits_def prepare_repair_remotes_def stage_tombstone_def
  add_tombstones_def after_verification_def ostree_builtin_fsck_def g_hash_table_insert_def
  dash_error_def digit_char_def Let_def

lemmas demo_defs =
  demo_env_def demo_store_def demo_options_def demo_file_def demo_commit_def demo_load_def
  demo_delete_def demo_write_def demo_send_def demo_walk_def demo_file_mode_ok_def
  demo_not_found_def hex_of_bytes_def hex_digit_def

lemma load_object_missing:
  assumes "load_error env (repo st) checksum objtype = Some e"
      and "g_error_matches e G_IO_ERROR_NOT_FOUND"
  shows "load_object env checksum objtype st =
           (Inr (True, None, None, None),
            g_printerr (object_missing checksum (object_type_to_string env objtype)) st)"
  using assms by (auto simp: load_object_def load_error_def split: sum.splits if_splits)

lemma one_object_missing:
  assumes "load_error env (repo st) checksum objtype = Some e"
      and "g_error_matches e G_IO_ERROR_NOT_FOUND"
  shows "load_and_fsck_one_object env opts checksum objtype repair_remotes found_corruption st =
           (case repair_or_flag env opts repair_remotes checksum objtype found_corruption
                   (g_printerr (object_missing checksum (object_type_to_string env objtype)) st) of
              (found_corruption1, st2) \<Rightarrow> (Inr (), found_corruption1, st2))"
  by (simp add: load_and_fsck_one_object_def load_object_missing [OF assms])

lemma repair_or_flag_keeps_flag:
  "repair_or_flag env opts rr checksum objtype fc st = (fc1, st1) \<Longrightarrow> fc \<Longrightarrow> fc1"
  by (auto simp: repair_or_flag_def split: option.splits prod.splits bool.splits)

lemma one_object_keeps_flag:
  "load_and_fsck_one_object env opts checksum objtype rr fc st = (r, fc1, st1) \<Longrightarrow> fc \<Longrightarrow> fc1"
  by (auto simp: load_and_fsck_one_object_def Let_def
           split: prod.splits sum.splits if_splits dest: repair_or_flag_keeps_flag)

lemma fsck_objects_keeps_flag:
  "fsck_objects env opts rr m count objects i fc st = (r, fc1, st1) \<Longrightarrow> fc \<Longrightarrow> fc1"
proof (induction objects arbitrary: i fc st)
  case Nil
  then show ?case by simp
next
  case (Cons obj objects)
  obtain checksum objtype where obj: "obj = (checksum, objtype)" by (cases obj)
  obtain r0 fc0 st2 where
    one: "load_and_fsck_one_object env opts checksum objtype rr fc st = (r0, fc0, st2)"
    by (cases "load_and_fsck_one_object env opts checksum objtype rr fc st") auto
  have fc0: fc0 using one Cons.prems(2) by (rule one_object_keeps_flag)
  show ?case
  proof (cases r0)
    case (Inl e)
    with Cons.prems(1) obj one fc0 show ?thesis by simp
  next
    case (Inr u)
    with Cons.prems(1) obj one have
      "fsck_objects env opts rr m count objects (i + 1) fc0 (print_progress m count i st2)
       = (r, fc1, st1)"
      by simp
    then show ?thesis using fc0 by (rule Cons.IH)
  qed
qed

lemma flagged_run_fails:
  "fst (after_verification env opts tombstones n_partial True st) \<noteq> Inr ()"
  by (simp add: after_verification_def split: prod.splits sum.splits)


subsection \<open>Checksum mismatch without remediation\<close>

text \<open>
  Claim C1. A run without \<open>--delete\<close> and without repair remotes comes, after the reachable
  objects \<open>pre\<close>, to an object that loads and passes validation but whose recomputed
  checksum is not the checksum of its name. Then verifying that object fails with the error
  "corrupted object <checksum>.<kind>; actual checksum: <recomputed>"; the loop over the
  reachable objects ends there with that error, whatever objects follow; and the run
  returns that error in the state in which it came to the object: nothing is done for the
  objects \<open>rest\<close>.
\<close>

theorem checksum_mismatch_aborts_run:
  assumes prepared: "prepare_repair_remotes env opts (repo st0) = Inr None"
      and listed: "repo_list_objects env (repo st0) = Inr objects"
      and counted: "census env opts (repo st0) objects [] 0 [] = Inr (commits, n_partial, tombstones)"
      and walked: "traverse_commits env (repo st0) commits [] = Inr reachable"
      and split: "reachable = pre @ (checksum, objtype) # rest"
      and reached: "fsck_objects env opts None (length reachable div 10) (length reachable) pre 0
                      False (verification_start opts commits st0) = (Inr (), found_corruption, st)"
      and loaded: "load_object env checksum objtype st = (Inr (False, input, file_info, xattrs), st1)"
      and digest: "checksum_file_from_input env (repo st1) file_info xattrs input objtype
                     = Inr computed_csum"
      and differs: "checksum_from_bytes env computed_csum \<noteq> checksum"
      and no_delete: "\<not> opt_delete opts"
  shows "load_and_fsck_one_object env opts checksum objtype None found_corruption st =
           (Inl (Some (GError G_IO_ERROR_FAILED
                         (''corrupted object '' @ checksum @ ''.''
                            @ object_type_to_string env objtype
                            @ ''; actual checksum: '' @ checksum_from_bytes env computed_csum))),
            found_corruption, st)
         \<and> fsck_objects env opts None m count ((checksum, objtype) # others) i
             found_corruption st =
           (Inl (Some (GError G_IO_ERROR_FAILED
                         (''corrupted object '' @ checksum @ ''.''
                            @ object_type_to_string env objtype
                            @ ''; actual checksum: '' @ checksum_from_bytes env computed_csum))),
            found_corruption, st)
         \<and> ostree_builtin_fsck env opts st0 =
           (Inl (Failed (Some (GError G_IO_ERROR_FAILED
                         (''corrupted object '' @ checksum @ ''.''
                            @ object_type_to_string env objtype
                            @ ''; actual checksum: '' @ checksum_from_bytes env computed_csum)))),
            st)"
proof -
  note one = one_object_mismatch [OF loaded digest differs no_delete, of found_corruption]
  from run_aborts_in_loop [OF prepared listed counted walked [unfolded split]
         reached [unfolded split] one]
  show ?thesis using one by simp
qed

theorem checksum_mismatch_aborts_run_witness:
  "prepare_repair_remotes demo_env (demo_options False False False None) (repo corrupt_store)
     = Inr None
   \<and> checksum_from_bytes demo_env [0xb0] \<noteq> ''bb''
   \<and> ostree_builtin_fsck demo_env (demo_options False False False None) corrupt_store =
       (Inl (Failed (Some (GError G_IO_ERROR_FAILED
                             ''corrupted object bb.file; actual checksum: b0''))),
        corrupt_store\<lparr>console :=
          [Stdout ''Enumerating objects...\<newline>'',
           Stdout ''Verifying content integrity of 1 commit objects...\<newline>'',
           Stdout ''1/4 objects\<newline>'', Stdout ''2/4 objects\<newline>'']\<rparr>)"
proof -
  let ?opts = "demo_options False False False None"
  let ?st = "corrupt_store\<lparr>console :=
          [Stdout ''Enumerating objects...\<newline>'',
           Stdout ''Verifying content integrity of 1 commit objects...\<newline>'',
           Stdout ''1/4 objects\<newline>'', Stdout ''2/4 objects\<newline>'']\<rparr>"
  have h1: "prepare_repair_remotes demo_env ?opts (repo corrupt_store) = Inr None"
    by (simp add: model_defs demo_defs)
  have h2: "repo_list_objects demo_env (repo corrupt_store)
              = Inr [(''c1'', COMMIT), (''aa'', FILE), (''bb'', FILE)]"
    by (simp add: model_defs demo_defs corrupt_store_def)
  have h3: "census demo_env ?opts (repo corrupt_store)
              [(''c1'', COMMIT), (''aa'', FILE), (''bb'', FILE)] [] 0 []
              = Inr ([(''c1'', COMMIT)], 0, [])"
    by (simp add: model_defs demo_defs corrupt_store_def)
  have h4: "traverse_commits demo_env (repo corrupt_store) [(''c1'', COMMIT)] []
              = Inr [(''c1'', COMMIT), (''aa'', FILE), (''bb'', FILE), (''dd'', DIR_META)]"
    by (simp add: model_defs demo_defs corrupt_store_def)
  have h5: "[(''c1'', COMMIT), (''aa'', FILE), (''bb'', FILE), (''dd'', DIR_META)]
              = [(''c1'', COMMIT), (''aa'', FILE)] @ (''bb'', FILE) # [(''dd'', DIR_META)]"
    by simp
  have h6: "fsck_objects demo_env ?opts None
              (length [(''c1'', COMMIT), (''aa'', FILE), (''bb'', FILE), (''dd'', DIR_META)] div 10)
              (length [(''c1'', COMMIT), (''aa'', FILE), (''bb'', FILE), (''dd'', DIR_META)])
              [(''c1'', COMMIT), (''aa'', FILE)] 0 False
              (verification_start ?opts [(''c1'', COMMIT)] corrupt_store)
              = (Inr (), False, ?st)"
    by (simp add: model_defs demo_defs corrupt_store_def string_of_uint.simps)
  have h7: "load_object demo_env ''bb'' FILE ?st
              = (Inr (False, Some [0xb0], Some 0x81A4, Some (demo_file [0xb0] 0x81A4)), ?st)"
    by (simp add: model_defs demo_defs corrupt_store_def)
  have h8: "checksum_file_from_input demo_env (repo ?st) (Some 0x81A4)
              (Some (demo_file [0xb0] 0x81A4)) (Some [0xb0]) FILE = Inr [0xb0]"
    by (simp add: demo_defs)
  have h9: "checksum_from_bytes demo_env [0xb0] \<noteq> ''bb''"
    by (simp add: demo_defs)
  have h10: "\<not> opt_delete ?opts"
    by (simp add: demo_defs)
  from checksum_mismatch_aborts_run [OF h1 h2 h3 h4 h5 h6 h7 h8 h9 h10] h1 h9
  show ?thesis by (simp add: demo_defs)
qed


subsection \<open>A missing object without repair remotes\<close>

text \<open>
  Claim C2. A run without repair remotes comes, after the reachable objects \<open>pre\<close>, to an
  object whose load fails with "not found". Then verifying that object succeeds and sets
  the corruption flag, whatever \<open>--delete\<close> says; the run goes on with the remaining
  objects \<open>rest\<close>, carrying the flag; and the run does not return TRUE.
\<close>

theorem missing_object_flags_run:
  assumes prepared: "prepare_repair_remotes env opts (repo st0) = Inr None"
      and listed: "repo_list_objects env (repo st0) = Inr objects"
      and counted: "census env opts (repo st0) objects [] 0 [] = Inr (commits, n_partial, tombstones)"
      and walked: "traverse_commits env (repo st0) commits [] = Inr reachable"
      and split: "reachable = pre @ (checksum, objtype) # rest"
      and reached: "fsck_objects env opts None (length reachable div 10) (length reachable) pre 0
                      False (verification_start opts commits st0) = (Inr (), found_corruption, st)"
      and missing: "load_error env (repo st) checksum objtype = Some e"
      and not_found: "g_error_matches e G_IO_ERROR_NOT_FOUND"
  shows "load_and_fsck_one_object env opts checksum objtype None found_corruption st =
           (Inr (), True,
            g_printerr (object_missing checksum (object_type_to_string env objtype)) st)
         \<and> ostree_builtin_fsck env opts st0 =
           (case fsck_objects env opts None (length reachable div 10) (length reachable) rest
                   (Suc (length pre)) True
                   (print_progress (length reachable div 10) (length reachable) (length pre)
                      (g_printerr (object_missing checksum (object_type_to_string env objtype))
                         st)) of
              (Inl error, flag, st2) \<Rightarrow> (Inl (Failed error), st2)
            | (Inr u, flag, st2) \<Rightarrow> after_verification env opts tombstones n_partial True st2)
         \<and> fst (ostree_builtin_fsck env opts st0) \<noteq> Inr ()"
proof -
  let ?m = "length reachable div 10" and ?count = "length reachable"
  let ?st1 = "g_printerr (object_missing checksum (object_type_to_string env objtype)) st"
  have one: "load_and_fsck_one_object env opts checksum objtype None found_corruption st =
               (Inr (), True, ?st1)"
    by (simp add: one_object_missing [OF missing not_found] repair_or_flag_def)
  obtain r flag st2 where
    tail: "fsck_objects env opts None ?m ?count rest (Suc (length pre)) True
             (print_progress ?m ?count (length pre) ?st1) = (r, flag, st2)"
    by (cases "fsck_objects env opts None ?m ?count rest (Suc (length pre)) True
                 (print_progress ?m ?count (length pre) ?st1)") auto
  have flag: flag using tail by (rule fsck_objects_keeps_flag) simp
  have "fsck_objects env opts None ?m ?count reachable 0 False (verification_start opts commits st0)
          = (r, flag, st2)"
    using reached one tail by (simp add: split fsck_objects_append)
  then have run: "ostree_builtin_fsck env opts st0 =
                    (case r of Inl error \<Rightarrow> (Inl (Failed error), st2)
                     | Inr u \<Rightarrow> after_verification env opts tombstones n_partial True st2)"
    using prepared listed counted walked flag
    by (simp add: builtin_unfold reachable_unfold split: sum.splits)
  have "fst (ostree_builtin_fsck env opts st0) \<noteq> Inr ()"
    unfolding run using flagged_run_fails [of env opts tombstones n_partial st2]
    by (cases r) simp_all
  moreover have "ostree_builtin_fsck env opts st0 =
           (case fsck_objects env opts None ?m ?count rest (Suc (length pre)) True
                   (print_progress ?m ?count (length pre) ?st1) of
              (Inl error, flag, st2) \<Rightarrow> (Inl (Failed error), st2)
            | (Inr u, flag, st2) \<Rightarrow> after_verification env opts tombstones n_partial True st2)"
    unfolding run tail by (cases r) simp_all
  ultimately show ?thesis using one by simp
qed

theorem missing_object_flags_run_witness:
  "load_error demo_env (repo sparse_store) ''dd'' DIR_META = Some demo_not_found
   \<and> g_error_matches demo_not_found G_IO_ERROR_NOT_FOUND
   \<and> ostree_builtin_fsck demo_env (demo_options False False False None) sparse_store =
       (Inl (Failed (Some (GError G_IO_ERROR_FAILED ''Repository corruption encountered''))),
        sparse_store\<lparr>console :=
          [Stdout ''Enumerating objects...\<newline>'',
           Stdout ''Verifying content integrity of 1 commit objects...\<newline>'',
           Stdout ''1/4 objects\<newline>'', Stdout ''2/4 objects\<newline>'',
           Stderr ''Object missing: dd.dirmeta\<newline>'', Stdout ''3/4 objects\<newline>'',
           Stderr ''Object missing: bb.file\<newline>'', Stdout ''4/4 objects\<newline>'']\<rparr>)"
proof -
  let ?opts = "demo_options False False False None"
  let ?reachable = "[(''c1'', COMMIT), (''aa'', FILE), (''dd'', DIR_META), (''bb'', FILE)]"
  let ?st = "sparse_store\<lparr>console :=
          [Stdout ''Enumerating objects...\<newline>'',
           Stdout ''Verifying content integrity of 1 commit objects...\<newline>'',
           Stdout ''1/4 objects\<newline>'', Stdout ''2/4 objects\<newline>'']\<rparr>"
  have h1: "prepare_repair_remotes demo_env ?opts (repo sparse_store) = Inr None"
    by (simp add: model_defs demo_defs)
  have h2: "repo_list_objects demo_env (repo sparse_store)
              = Inr [(''c1'', COMMIT), (''aa'', FILE)]"
    by (simp add: model_defs demo_defs sparse_store_def)
  have h3: "census demo_env ?opts (repo sparse_store) [(''c1'', COMMIT), (''aa'', FILE)] [] 0 []
              = Inr ([(''c1'', COMMIT)], 0, [])"
    by (simp add: model_defs demo_defs sparse_store_def)
  have h4: "traverse_commits demo_env (repo sparse_store) [(''c1'', COMMIT)] [] = Inr ?reachable"
    by (simp add: model_defs demo_defs sparse_store_def)
  have h5: "?reachable = [(''c1'', COMMIT), (''aa'', FILE)] @ (''dd'', DIR_META) # [(''bb'', FILE)]"
    by simp
  have h6: "fsck_objects demo_env ?opts None (length ?reachable div 10) (length ?reachable)
              [(''c1'', COMMIT), (''aa'', FILE)] 0 False
              (verification_start ?opts [(''c1'', COMMIT)] sparse_store)
              = (Inr (), False, ?st)"
    by (simp add: model_defs demo_defs sparse_store_def string_of_uint.simps)
  have h7: "load_error demo_env (repo ?st) ''dd'' DIR_META = Some demo_not_found"
    by (simp add: load_error_def model_defs demo_env_def demo_load_def demo_store_def
          sparse_store_def demo_file_def demo_commit_def)
  have h8: "g_error_matches demo_not_found G_IO_ERROR_NOT_FOUND"
    by (simp add: g_error_matches_def demo_not_found_def)
  have h7': "load_error demo_env (repo sparse_store) ''dd'' DIR_META = Some demo_not_found"
    using h7 by simp
  from missing_object_flags_run [OF h1 h2 h3 h4 h5 h6 h7 h8] h7' h8
  show ?thesis
    by (simp add: model_defs demo_defs sparse_store_def string_of_uint.simps)
qed


subsection \<open>A file whose mode is not valid\<close>

text \<open>
  Claim C10. A run, with any options and any repair remotes, comes to a File object that
  loads but whose mode bits fail validation. Then verifying the object fails with the
  validator's error, prefixed with "While validating file '<checksum>': "; the state and
  the corruption flag are as they were when the run came to the object, so that nothing
  was deleted, no repair was tried and the flag was not set; the loop over the reachable
  objects ends there, whatever objects follow; and the run returns that error.
\<close>

theorem invalid_file_mode_aborts_run:
  assumes prepared: "prepare_repair_remotes env opts (repo st0) = Inr repair_remotes"
      and listed: "repo_list_objects env (repo st0) = Inr objects"
      and counted: "census env opts (repo st0) objects [] 0 [] = Inr (commits, n_partial, tombstones)"
      and walked: "traverse_commits env (repo st0) commits [] = Inr reachable"
      and split: "reachable = pre @ (checksum, OSTREE_OBJECT_TYPE_FILE) # rest"
      and reached: "fsck_objects env opts repair_remotes (length reachable div 10)
                      (length reachable) pre 0 False (verification_start opts commits st0)
                      = (Inr (), found_corruption, st)"
      and loaded: "repo_load_file env (repo st) checksum = Inr (input, file_info, xattrs)"
      and bad_mode: "validate_structureof_file_mode env (file_info_unix_mode env file_info)
                       = Some (GError c m)"
  shows "load_and_fsck_one_object env opts checksum OSTREE_OBJECT_TYPE_FILE repair_remotes
           found_corruption st =
           (Inl (Some (GError c (''While validating file '' @ [CHR 0x27] @ checksum @ [CHR 0x27]
                                   @ '': '' @ m))), found_corruption, st)
         \<and> fsck_objects env opts repair_remotes mo count
             ((checksum, OSTREE_OBJECT_TYPE_FILE) # others) i found_corruption st =
           (Inl (Some (GError c (''While validating file '' @ [CHR 0x27] @ checksum @ [CHR 0x27]
                                   @ '': '' @ m))), found_corruption, st)
         \<and> ostree_builtin_fsck env opts st0 =
           (Inl (Failed (Some (GError c (''While validating file '' @ [CHR 0x27] @ checksum
                                           @ [CHR 0x27] @ '': '' @ m)))), st)"
proof -
  note one = one_object_bad_mode [OF loaded bad_mode, of opts repair_remotes found_corruption]
  from run_aborts_in_loop [OF prepared listed counted walked [unfolded split]
         reached [unfolded split] one]
  show ?thesis using one by simp
qed

theorem invalid_file_mode_aborts_run_witness:
  "opt_delete (demo_options False True False (Some [''mirror'']))
   \<and> prepare_repair_remotes demo_env (demo_options False True False (Some [''mirror'']))
        (repo device_store) = Inr (Some [''mirror''])
   \<and> validate_structureof_file_mode demo_env 0x61A4
        = Some (GError G_IO_ERROR_FAILED ''Invalid file metadata mode; not a valid file type'')
   \<and> ostree_builtin_fsck demo_env (demo_options False True False (Some [''mirror'']))
        device_store =
       (Inl (Failed (Some (GError G_IO_ERROR_FAILED
          (''While validating file '' @ [CHR 0x27] @ ''cc'' @ [CHR 0x27]
             @ '': Invalid file metadata mode; not a valid file type'')))),
        device_store\<lparr>console :=
          [Stdout ''Enumerating objects...\<newline>'',
           Stdout ''Verifying content integrity of 1 commit objects...\<newline>'',
           Stdout ''1/3 objects\<newline>'']\<rparr>)"
proof -
  let ?opts = "demo_options False True False (Some [''mirror''])"
  let ?reachable = "[(''c4'', COMMIT), (''cc'', FILE), (''bb'', FILE)]"
  let ?st = "device_store\<lparr>console :=
          [Stdout ''Enumerating objects...\<newline>'',
           Stdout ''Verifying content integrity of 1 commit objects...\<newline>'',
           Stdout ''1/3 objects\<newline>'']\<rparr>"
  have h0: "opt_delete ?opts"
    by (simp add: demo_defs)
  have h1: "prepare_repair_remotes demo_env ?opts (repo device_store) = Inr (Some [''mirror''])"
    by (simp add: model_defs demo_defs device_store_def)
  have h2: "repo_list_objects demo_env (repo device_store)
              = Inr [(''c4'', COMMIT), (''cc'', FILE)]"
    by (simp add: model_defs demo_defs device_store_def)
  have h3: "census demo_env ?opts (repo device_store) [(''c4'', COMMIT), (''cc'', FILE)] [] 0 []
              = Inr ([(''c4'', COMMIT)], 0, [])"
    by (simp add: model_defs demo_defs device_store_def)
  have h4: "traverse_commits demo_env (repo device_store) [(''c4'', COMMIT)] [] = Inr ?reachable"
    by (simp add: model_defs demo_defs device_store_def)
  have h5: "?reachable = [(''c4'', COMMIT)] @ (''cc'', OSTREE_OBJECT_TYPE_FILE) # [(''bb'', FILE)]"
    by simp
  have h6: "fsck_objects demo_env ?opts (Some [''mirror'']) (length ?reachable div 10)
              (length ?reachable) [(''c4'', COMMIT)] 0 False
              (verification_start ?opts [(''c4'', COMMIT)] device_store)
              = (Inr (), False, ?st)"
    by (simp add: model_defs demo_defs device_store_def string_of_uint.simps)
  have h7: "repo_load_file demo_env (repo ?st) ''cc''
              = Inr ([0xcc], 0x61A4, demo_file [0xcc] 0x61A4)"
    by (simp add: model_defs demo_defs device_store_def)
  have h8: "validate_structureof_file_mode demo_env (file_info_unix_mode demo_env 0x61A4)
              = Some (GError G_IO_ERROR_FAILED
                        ''Invalid file metadata mode; not a valid file type'')"
    by (simp add: demo_defs)
  have h8': "validate_structureof_file_mode demo_env 0x61A4
              = Some (GError G_IO_ERROR_FAILED
                        ''Invalid file metadata mode; not a valid file type'')"
    by (simp add: demo_defs)
  from invalid_file_mode_aborts_run [OF h1 h2 h3 h4 h5 h6 h7 h8] h0 h1 h8'
  show ?thesis by simp
qed


subsection \<open>Repair of metadata objects\<close>

lemma repair_object_metadata:
  assumes "objtype \<noteq> OSTREE_OBJECT_TYPE_FILE"
  shows "repair_object env opts remotes checksum objtype st =
           (False, g_printerr (''repair of '' @ object_type_to_string env objtype @ '' ''
                                 @ checksum @ '' failed, not implenented'') st)"
  using assms by (simp add: repair_object_def)

text \<open>
  Claim C4. For an object of a metadata kind \<open>repair_object\<close> returns FALSE whatever the
  remotes are; it writes one line to standard error and leaves the repository, the network
  and the cancellable as they are. So a metadata object whose load fails with "not found",
  verified with repair remotes, sets the corruption flag, and verifying it succeeds.
\<close>

theorem metadata_repair_not_implemented:
  assumes "objtype \<noteq> OSTREE_OBJECT_TYPE_FILE"
  shows "repair_object env opts remotes checksum objtype st =
           (False, g_printerr (''repair of '' @ object_type_to_string env objtype @ '' ''
                                 @ checksum @ '' failed, not implenented'') st)
         \<and> repo (snd (repair_object env opts remotes checksum objtype st)) = repo st
         \<and> (load_error env (repo st) checksum objtype = Some e
              \<longrightarrow> g_error_matches e G_IO_ERROR_NOT_FOUND
              \<longrightarrow> load_and_fsck_one_object env opts checksum objtype (Some remotes)
                    found_corruption st =
                  (Inr (), True,
                   g_printerr (''repair of '' @ object_type_to_string env objtype @ '' ''
                                 @ checksum @ '' failed, not implenented'')
                     (g_printerr (object_missing checksum (object_type_to_string env objtype))
                        st)))"
proof -
  have "load_and_fsck_one_object env opts checksum objtype (Some remotes) found_corruption st =
          (Inr (), True,
           g_printerr (''repair of '' @ object_type_to_string env objtype @ '' ''
                         @ checksum @ '' failed, not implenented'')
             (g_printerr (object_missing checksum (object_type_to_string env objtype)) st))"
    if "load_error env (repo st) checksum objtype = Some e"
      and "g_error_matches e G_IO_ERROR_NOT_FOUND"
    using that assms
    by (simp add: one_object_missing [OF that] repair_or_flag_def repair_object_metadata)
  then show ?thesis
    using assms by (simp add: repair_object_metadata)
qed

theorem metadata_repair_not_implemented_witness:
  "load_error demo_env (repo sparse_store) ''dd'' DIR_META = Some demo_not_found
   \<and> g_error_matches demo_not_found G_IO_ERROR_NOT_FOUND
   \<and> map_of (served (repo sparse_store)) ''http://origin/objects/dd/.dirmetaz'' = Some [0xdd]
   \<and> load_and_fsck_one_object demo_env (demo_options False False False (Some [''origin'']))
        ''dd'' DIR_META (Some [''origin'']) False sparse_store =
       (Inr (), True,
        sparse_store\<lparr>console :=
          [Stderr ''Object missing: dd.dirmeta\<newline>'',
           Stderr ''repair of dirmeta dd failed, not implenented'']\<rparr>)"
proof -
  have h1: "DIR_META \<noteq> OSTREE_OBJECT_TYPE_FILE"
    by simp
  have h2: "load_error demo_env (repo sparse_store) ''dd'' DIR_META = Some demo_not_found"
    by (simp add: load_error_def model_defs demo_env_def demo_load_def demo_store_def
          sparse_store_def demo_file_def demo_commit_def)
  have h3: "g_error_matches demo_not_found G_IO_ERROR_NOT_FOUND"
    by (simp add: g_error_matches_def demo_not_found_def)
  have h4: "map_of (served (repo sparse_store)) ''http://origin/objects/dd/.dirmetaz''
              = Some [0xdd]"
    by (simp add: sparse_store_def demo_store_def)
  from metadata_repair_not_implemented [OF h1, of demo_env
         "demo_options False False False (Some [''origin''])" "[''origin'']" "''dd''"
         sparse_store demo_not_found False] h2 h3 h4
  show ?thesis
    by (simp add: g_printerr_def object_missing_def demo_env_def sparse_store_def
          demo_store_def)
qed


subsection \<open>The order of the repair sources\<close>

lemma repair_loop_after_failures:
  "sources_fail env opts checksum objtype path pre st = Some st1 \<Longrightarrow>
   repair_loop env opts checksum objtype path (pre @ remotes) st =
     repair_loop env opts checksum objtype path remotes st1"
proof (induction pre arbitrary: st)
  case Nil
  then show ?case by simp
next
  case (Cons remote pre)
  obtain x st2 where
    round: "repair_from_remote env opts checksum objtype path remote st = (x, st2)"
    by (cases "repair_from_remote env opts checksum objtype path remote st") auto
  show ?case
  proof (cases x)
    case Continue
    with Cons.prems round have "sources_fail env opts checksum objtype path pre st2 = Some st1"
      by simp
    then show ?thesis using Continue round by (simp add: Cons.IH)
  next
    case (Return b)
    with Cons.prems round show ?thesis by simp
  qed
qed

lemma repair_loop_all_fail:
  "sources_fail env opts checksum objtype path remotes st = Some st1 \<Longrightarrow>
   repair_loop env opts checksum objtype path remotes st = (False, st1)"
  using repair_loop_after_failures [of env opts checksum objtype path remotes st st1 "[]"]
  by simp

lemma repair_loop_result:
  "repair_loop env opts checksum objtype path remotes st = (b, st2) \<Longrightarrow>
   (\<not> b \<and> sources_fail env opts checksum objtype path remotes st = Some st2)
   \<or> (\<exists>pre remote post st1.
         remotes = pre @ remote # post
         \<and> sources_fail env opts checksum objtype path pre st = Some st1
         \<and> repair_from_remote env opts checksum objtype path remote st1 = (Return b, st2))"
proof (induction remotes arbitrary: st)
  case Nil
  then show ?case by simp
next
  case (Cons remote remotes)
  obtain x st3 where
    round: "repair_from_remote env opts checksum objtype path remote st = (x, st3)"
    by (cases "repair_from_remote env opts checksum objtype path remote st") auto
  show ?case
  proof (cases x)
    case Continue
    with Cons.prems round have
      "repair_loop env opts checksum objtype path remotes st3 = (b, st2)"
      by simp
    from Cons.IH [OF this] show ?thesis
    proof
      assume "\<not> b \<and> sources_fail env opts checksum objtype path remotes st3 = Some st2"
      then show ?thesis using Continue round by simp
    next
      assume "\<exists>pre r post st1.
                remotes = pre @ r # post
                \<and> sources_fail env opts checksum objtype path pre st3 = Some st1
                \<and> repair_from_remote env opts checksum objtype path r st1 = (Return b, st2)"
      then obtain pre r post st1 where
        later: "remotes = pre @ r # post"
          "sources_fail env opts checksum objtype path pre st3 = Some st1"
          "repair_from_remote env opts checksum objtype path r st1 = (Return b, st2)"
        by blast
      have "remote # remotes = (remote # pre) @ r # post"
        using later(1) by simp
      moreover have "sources_fail env opts checksum objtype path (remote # pre) st = Some st1"
        using later(2) Continue round by simp
      ultimately show ?thesis using later(3) by blast
    qed
  next
    case (Return b0)
    with Cons.prems round have "b0 = b" "st3 = st2" by simp_all
    then have "remote # remotes = [] @ remote # remotes
               \<and> sources_fail env opts checksum objtype path [] st = Some st
               \<and> repair_from_remote env opts checksum objtype path remote st = (Return b, st2)"
      using Return round by simp
    then show ?thesis by blast
  qed
qed

lemma repair_from_remote_success:
  "(repair_from_remote env opts checksum objtype path remote st = (Return True, st2)) =
   (\<exists>server_url request stream w1 file_stream file_info xattrs content_stream content_len w2.
      repo_remote_get_url env (repo st) remote = Inr server_url
      \<and> soup_session_request env (server_url @ ''/'' @ path) = Inr request
      \<and> soup_request_send env (repo st) request = (Inr stream, w1)
      \<and> content_stream_parse env w1 stream (soup_request_get_content_length env request)
          = Inr (file_stream, file_info, xattrs)
      \<and> raw_file_to_content_stream env w1 file_stream file_info xattrs
          = Inr (content_stream, content_len)
      \<and> repo_write_content env w1 checksum content_stream content_len = (None, w2)
      \<and> st2 = st\<lparr>repo := w2\<rparr>)"
  by (auto simp: repair_from_remote_def Let_def
           split: sum.splits prod.splits option.splits if_splits)

lemma repair_from_remote_cancelled:
  "(repair_from_remote env opts checksum objtype path remote st = (Return False, st2)) =
   (\<exists>server_url request error w1.
      repo_remote_get_url env (repo st) remote = Inr server_url
      \<and> soup_session_request env (server_url @ ''/'' @ path) = Inr request
      \<and> soup_request_send env (repo st) request = (Inl error, w1)
      \<and> cancellable_is_cancelled env w1
      \<and> st2 = st\<lparr>repo := w1\<rparr>)"
  by (auto simp: repair_from_remote_def Let_def
           split: sum.splits prod.splits option.splits if_splits)

text \<open>
  Claim C7, as amended: the order of the sources holds for File objects only, and the
  cancellable is looked at only after a request has failed to be sent. With \<open>path\<close> the
  relative path of the object:
  \<^item> when the sources \<open>pre\<close> before \<open>remote\<close> have failed one after the other and the round of
    \<open>remote\<close> returns, \<open>repair_object\<close> returns what that round returns, in the state that
    round leaves: the sources \<open>post\<close> after it are not tried;
  \<^item> when all sources have failed one after the other, \<open>repair_object\<close> returns FALSE;
  \<^item> \<open>repair_object\<close> returns in no other way: FALSE after all sources have failed, or the
    result of the first round that returns;
  \<^item> a round returns TRUE exactly when the URL was found, the request was made and sent,
    the content stream was parsed and converted, and the content was written to the
    repository;
  \<^item> a round returns FALSE exactly when the URL was found, the request was made, sending
    it failed and the cancellable is cancelled;
  \<^item> for an object of a metadata kind \<open>repair_object\<close> returns FALSE at once, with one
    line on standard error and the state otherwise as it was.
\<close>

theorem file_repair_tries_sources_in_order:
  assumes path: "path = get_relative_object_path env checksum OSTREE_OBJECT_TYPE_FILE True"
  shows "(remotes = pre @ remote # post
            \<longrightarrow> sources_fail env opts checksum OSTREE_OBJECT_TYPE_FILE path pre st = Some st1
            \<longrightarrow> repair_from_remote env opts checksum OSTREE_OBJECT_TYPE_FILE path remote st1
                  = (Return b, st2)
            \<longrightarrow> repair_object env opts remotes checksum OSTREE_OBJECT_TYPE_FILE st = (b, st2))
         \<and> (sources_fail env opts checksum OSTREE_OBJECT_TYPE_FILE path remotes st = Some st3
            \<longrightarrow> repair_object env opts remotes checksum OSTREE_OBJECT_TYPE_FILE st = (False, st3))
         \<and> (repair_object env opts remotes checksum OSTREE_OBJECT_TYPE_FILE st = (ok, st4)
            \<longrightarrow> (\<not> ok \<and> sources_fail env opts checksum OSTREE_OBJECT_TYPE_FILE path remotes st
                          = Some st4)
                \<or> (\<exists>pre remote post st1.
                      remotes = pre @ remote # post
                      \<and> sources_fail env opts checksum OSTREE_OBJECT_TYPE_FILE path pre st
                          = Some st1
                      \<and> repair_from_remote env opts checksum OSTREE_OBJECT_TYPE_FILE path
                            remote st1 = (Return ok, st4)))
         \<and> (repair_from_remote env opts checksum OSTREE_OBJECT_TYPE_FILE path remote st5
              = (Return True, st6))
             = (\<exists>server_url request stream w1 file_stream file_info xattrs content_stream
                     content_len w2.
                   repo_remote_get_url env (repo st5) remote = Inr server_url
                   \<and> soup_session_request env (server_url @ ''/'' @ path) = Inr request
                   \<and> soup_request_send env (repo st5) request = (Inr stream, w1)
                   \<and> content_stream_parse env w1 stream
                         (soup_request_get_content_length env request)
                       = Inr (file_stream, file_info, xattrs)
                   \<and> raw_file_to_content_stream env w1 file_stream file_info xattrs
                       = Inr (content_stream, content_len)
                   \<and> repo_write_content env w1 checksum content_stream content_len = (None, w2)
                   \<and> st6 = st5\<lparr>repo := w2\<rparr>)
         \<and> (repair_from_remote env opts checksum OSTREE_OBJECT_TYPE_FILE path remote st5
              = (Return False, st6))
             = (\<exists>server_url request error w1.
                   repo_remote_get_url env (repo st5) remote = Inr server_url
                   \<and> soup_session_request env (server_url @ ''/'' @ path) = Inr request
                   \<and> soup_request_send env (repo st5) request = (Inl error, w1)
                   \<and> cancellable_is_cancelled env w1
                   \<and> st6 = st5\<lparr>repo := w1\<rparr>)
         \<and> (objtype \<noteq> OSTREE_OBJECT_TYPE_FILE
            \<longrightarrow> repair_object env opts remotes checksum objtype st =
                  (False, g_printerr (''repair of '' @ object_type_to_string env objtype @ '' ''
                                        @ checksum @ '' failed, not implenented'') st))"
proof -
  have loop: "repair_object env opts remotes checksum OSTREE_OBJECT_TYPE_FILE st =
                repair_loop env opts checksum OSTREE_OBJECT_TYPE_FILE path remotes st"
    for remotes st
    by (simp add: repair_object_def path)
  have first: "repair_object env opts remotes checksum OSTREE_OBJECT_TYPE_FILE st = (b, st2)"
    if "remotes = pre @ remote # post"
      and "sources_fail env opts checksum OSTREE_OBJECT_TYPE_FILE path pre st = Some st1"
      and "repair_from_remote env opts checksum OSTREE_OBJECT_TYPE_FILE path remote st1
             = (Return b, st2)"
    using that by (simp add: loop repair_loop_after_failures)
  have none: "repair_object env opts remotes checksum OSTREE_OBJECT_TYPE_FILE st = (False, st3)"
    if "sources_fail env opts checksum OSTREE_OBJECT_TYPE_FILE path remotes st = Some st3"
    using that by (simp add: loop repair_loop_all_fail)
  have only: "(\<not> ok \<and> sources_fail env opts checksum OSTREE_OBJECT_TYPE_FILE path remotes st
                          = Some st4)
                \<or> (\<exists>pre remote post st1.
                      remotes = pre @ remote # post
                      \<and> sources_fail env opts checksum OSTREE_OBJECT_TYPE_FILE path pre st
                          = Some st1
                      \<and> repair_from_remote env opts checksum OSTREE_OBJECT_TYPE_FILE path
                            remote st1 = (Return ok, st4))"
    if "repair_object env opts remotes checksum OSTREE_OBJECT_TYPE_FILE st = (ok, st4)"
    using that unfolding loop by (rule repair_loop_result)
  have ordered:
    "(remotes = pre @ remote # post
        \<longrightarrow> sources_fail env opts checksum OSTREE_OBJECT_TYPE_FILE path pre st = Some st1
        \<longrightarrow> repair_from_remote env opts checksum OSTREE_OBJECT_TYPE_FILE path remote st1
              = (Return b, st2)
        \<longrightarrow> repair_object env opts remotes checksum OSTREE_OBJECT_TYPE_FILE st = (b, st2))
     \<and> (sources_fail env opts checksum OSTREE_OBJECT_TYPE_FILE path remotes st = Some st3
        \<longrightarrow> repair_object env opts remotes checksum OSTREE_OBJECT_TYPE_FILE st = (False, st3))
     \<and> (repair_object env opts remotes checksum OSTREE_OBJECT_TYPE_FILE st = (ok, st4)
        \<longrightarrow> (\<not> ok \<and> sources_fail env opts checksum OSTREE_OBJECT_TYPE_FILE path remotes st
                      = Some st4)
            \<or> (\<exists>pre remote post st1.
                  remotes = pre @ remote # post
                  \<and> sources_fail env opts checksum OSTREE_OBJECT_TYPE_FILE path pre st
                      = Some st1
                  \<and> repair_from_remote env opts checksum OSTREE_OBJECT_TYPE_FILE path
                        remote st1 = (Return ok, st4)))"
    using first none only by blast
  show ?thesis
    using ordered
      repair_from_remote_success [of env opts checksum OSTREE_OBJECT_TYPE_FILE path remote st5 st6]
      repair_from_remote_cancelled [of env opts checksum OSTREE_OBJECT_TYPE_FILE path remote st5 st6]
      repair_object_metadata [of objtype env opts remotes checksum st]
    by simp
qed

theorem file_repair_tries_sources_in_order_witness:
  "repair_object demo_env (demo_options False False False None) [''origin'', ''mirror''] ''bb''
     FILE sparse_store =
     (True,
      sparse_store\<lparr>repo := (repo sparse_store)
         \<lparr>stored := stored (repo sparse_store) @ [((''bb'', FILE), demo_file [0xbb] 0x81A4)],
          calls := [Sent ''http://origin/objects/bb/.filez'',
                    Sent ''http://mirror/objects/bb/.filez'', Written ''bb'']\<rparr>,
        console := [Stderr (''repair of file bb from origin failed, failed to download the ''
                      @ ''object from URL http://origin/objects/bb/.filez: Not Found'')]\<rparr>)
   \<and> repair_object demo_env (demo_options False False False None) [''origin'', ''mirror'']
       ''bb'' FILE cancelled_store =
     (False,
      cancelled_store\<lparr>repo := (repo cancelled_store)
         \<lparr>calls := [Sent ''http://origin/objects/bb/.filez'']\<rparr>\<rparr>)"
proof -
  let ?opts = "demo_options False False False None"
  let ?path = "''objects/bb/.filez''"
  let ?st1 = "sparse_store\<lparr>repo := (repo sparse_store)
                 \<lparr>calls := [Sent ''http://origin/objects/bb/.filez'']\<rparr>,
               console := [Stderr (''repair of file bb from origin failed, failed to download the ''
                      @ ''object from URL http://origin/objects/bb/.filez: Not Found'')]\<rparr>"
  let ?st2 = "sparse_store\<lparr>repo := (repo sparse_store)
         \<lparr>stored := stored (repo sparse_store) @ [((''bb'', FILE), demo_file [0xbb] 0x81A4)],
          calls := [Sent ''http://origin/objects/bb/.filez'',
                    Sent ''http://mirror/objects/bb/.filez'', Written ''bb'']\<rparr>,
        console := [Stderr (''repair of file bb from origin failed, failed to download the ''
                      @ ''object from URL http://origin/objects/bb/.filez: Not Found'')]\<rparr>"
  let ?st3 = "cancelled_store\<lparr>repo := (repo cancelled_store)
         \<lparr>calls := [Sent ''http://origin/objects/bb/.filez'']\<rparr>\<rparr>"
  have h0: "?path = get_relative_object_path demo_env ''bb'' OSTREE_OBJECT_TYPE_FILE True"
    by (simp add: demo_defs)
  have h1: "[''origin'', ''mirror''] = [''origin''] @ ''mirror'' # []"
    by simp
  have h2: "sources_fail demo_env ?opts ''bb'' OSTREE_OBJECT_TYPE_FILE ?path [''origin'']
              sparse_store = Some ?st1"
    by (simp add: model_defs demo_defs sparse_store_def)
  have h3: "repair_from_remote demo_env ?opts ''bb'' OSTREE_OBJECT_TYPE_FILE ?path ''mirror''
              ?st1 = (Return True, ?st2)"
    by (simp add: model_defs demo_defs sparse_store_def)
  have h4: "[''origin'', ''mirror''] = [] @ ''origin'' # [''mirror'']"
    by simp
  have h5: "sources_fail demo_env ?opts ''bb'' OSTREE_OBJECT_TYPE_FILE ?path []
              cancelled_store = Some cancelled_store"
    by simp
  have h6: "repair_from_remote demo_env ?opts ''bb'' OSTREE_OBJECT_TYPE_FILE ?path ''origin''
              cancelled_store = (Return False, ?st3)"
    by (simp add: model_defs demo_defs sparse_store_def cancelled_store_def)
  note ordered = file_repair_tries_sources_in_order [OF h0, THEN conjunct1, rule_format]
  from ordered [OF h1 h2 h3] ordered [OF h4 h5 h6]
  show ?thesis by simp
qed

text \<open>
  Claim C7 as it is written fails twice. For a metadata object the only source, which
  serves the object, is never asked, and failure is reported at once. And for a File
  object in a run that is cancelled from the start, the routine does not return at once:
  the first source has no URL, the round \<open>continue\<close>s without looking at the cancellable,
  and the request of the second source is sent.
\<close>

theorem sources_untried_or_tried_when_cancelled:
  "map_of (served (repo sparse_store)) ''http://origin/objects/dd/.dirmetaz'' = Some [0xdd]
   \<and> fst (repair_object demo_env (demo_options False False False None) [''origin''] ''dd''
           DIR_META sparse_store) = False
   \<and> calls (repo (snd (repair_object demo_env (demo_options False False False None)
                          [''origin''] ''dd'' DIR_META sparse_store))) = []
   \<and> cancellable_is_cancelled demo_env (repo cancelled_store)
   \<and> repair_object demo_env (demo_options False False False None) [''nosuch'', ''origin'']
       ''bb'' FILE cancelled_store =
     (False,
      cancelled_store\<lparr>repo := (repo cancelled_store)
         \<lparr>calls := [Sent ''http://origin/objects/bb/.filez'']\<rparr>,
        console := [Stderr (''repair of file bb from nosuch failed, failed to get a URL ''
                      @ ''for remote: No such file or directory'')]\<rparr>)"
  by (simp add: model_defs demo_defs sparse_store_def cancelled_store_def)

subsection \<open>Remediation of a missing or corrupted object\<close>

lemma one_object_remediated:
  assumes "load_object env checksum objtype st = (Inr (False, input, file_info, xattrs), st1)"
      and "checksum_file_from_input env (repo st1) file_info xattrs input objtype = Inr computed_csum"
      and "checksum_from_bytes env computed_csum \<noteq> checksum"
      and "opt_delete opts \<or> repair_remotes \<noteq> None"
  shows "load_and_fsck_one_object env opts checksum objtype repair_remotes found_corruption st =
           (case repair_or_flag env opts repair_remotes checksum objtype found_corruption
                   ((g_printerr (corrupted_object checksum (object_type_to_string env objtype)
                                   (checksum_from_bytes env computed_csum) @ ''\<newline>'') st)
                      \<lparr>repo := snd (repo_delete_object env (repo st) objtype checksum)\<rparr>) of
              (found_corruption1, st2) \<Rightarrow> (Inr (), found_corruption1, st2))"
proof -
  have "st1 = st" using assms(1) by (rule load_object_keeps_state)
  with assms show ?thesis
    by (simp add: load_and_fsck_one_object_def Let_def)
qed

lemma repair_or_flag_cases:
  "repair_or_flag env opts None checksum objtype found_corruption st = (True, st)"
  "repair_object env opts remotes checksum objtype st = (ok, st2) \<Longrightarrow>
   repair_or_flag env opts (Some remotes) checksum objtype found_corruption st =
     (if ok then found_corruption else True, st2)"
  by (simp_all add: repair_or_flag_def)

lemma repair_object_file_first:
  assumes "remotes = pre @ remote # post"
      and "sources_fail env opts checksum OSTREE_OBJECT_TYPE_FILE
             (get_relative_object_path env checksum OSTREE_OBJECT_TYPE_FILE True) pre st = Some st1"
      and "repair_from_remote env opts checksum OSTREE_OBJECT_TYPE_FILE
             (get_relative_object_path env checksum OSTREE_OBJECT_TYPE_FILE True) remote st1
             = (Return b, st2)"
  shows "repair_object env opts remotes checksum OSTREE_OBJECT_TYPE_FILE st = (b, st2)"
  using assms by (simp add: repair_object_def repair_loop_after_failures)

lemma repair_object_file_all_fail:
  assumes "sources_fail env opts checksum OSTREE_OBJECT_TYPE_FILE
             (get_relative_object_path env checksum OSTREE_OBJECT_TYPE_FILE True) remotes st
             = Some st2"
  shows "repair_object env opts remotes checksum OSTREE_OBJECT_TYPE_FILE st = (False, st2)"
  using assms by (simp add: repair_object_def repair_loop_all_fail)

text \<open>
  Claim C3, as amended; "deleted" is read as a call of \<open>ostree_repo_delete_object\<close>. The
  delete flag is set or repair remotes are configured, and \<open>start\<close> is the state in which
  the remediation of the object starts:
  \<^item> for an object whose load fails with "not found" it is the state \<open>st\<close> with the line
    "Object missing" added: the repository is as it was, no deletion comes before the
    repair (\<open>repair_object\<close> itself deletes the object after a write that fails, when
    \<open>--delete\<close> is set);
  \<^item> for an object that loads and passes validation but whose recomputed checksum differs
    it is the state after \<open>ostree_repo_delete_object\<close>, whose result is dropped, with the
    line "corrupted object" added.
  From there, without repair remotes the corruption flag is set. With repair remotes
  \<open>repair_object\<close> runs on the configured list; the flag is set when it returns FALSE and
  left as it was when it returns TRUE. For a File object the sources are tried in the order
  of the list: when all of them have failed one after the other the flag is set, and when
  those before one have failed and its round returns, the rest is not tried. For a metadata
  object the repair fails without trying a source, and the flag is set. In every case
  verifying the object succeeds, and the loop goes on with the next object.
\<close>

theorem remediation_of_bad_object:
  assumes enabled: "opt_delete opts \<or> repair_remotes \<noteq> None"
  shows "repo (g_printerr (object_missing checksum (object_type_to_string env objtype)) st)
           = repo st
         \<and> (load_error env (repo st) checksum objtype = Some e
              \<and> g_error_matches e G_IO_ERROR_NOT_FOUND
              \<and> start = g_printerr (object_missing checksum (object_type_to_string env objtype))
                          st
            \<or> load_object env checksum objtype st
                  = (Inr (False, input, file_info, xattrs), st1)
              \<and> checksum_file_from_input env (repo st1) file_info xattrs input objtype
                  = Inr computed_csum
              \<and> checksum_from_bytes env computed_csum \<noteq> checksum
              \<and> start = (g_printerr (corrupted_object checksum
                                        (object_type_to_string env objtype)
                                        (checksum_from_bytes env computed_csum) @ ''\<newline>'') st)
                           \<lparr>repo := snd (repo_delete_object env (repo st) objtype checksum)\<rparr>
            \<longrightarrow> (repair_remotes = None
                    \<longrightarrow> load_and_fsck_one_object env opts checksum objtype repair_remotes
                          found_corruption st = (Inr (), True, start))
                \<and> (repair_remotes = Some remotes
                    \<longrightarrow> repair_object env opts remotes checksum objtype start = (ok, st2)
                    \<longrightarrow> load_and_fsck_one_object env opts checksum objtype repair_remotes
                          found_corruption st =
                        (Inr (), (if ok then found_corruption else True), st2))
                \<and> (repair_remotes = Some remotes
                    \<longrightarrow> objtype = OSTREE_OBJECT_TYPE_FILE
                    \<longrightarrow> sources_fail env opts checksum OSTREE_OBJECT_TYPE_FILE
                          (get_relative_object_path env checksum OSTREE_OBJECT_TYPE_FILE True)
                          remotes start = Some st4
                    \<longrightarrow> load_and_fsck_one_object env opts checksum objtype repair_remotes
                          found_corruption st = (Inr (), True, st4))
                \<and> (repair_remotes = Some remotes
                    \<longrightarrow> objtype = OSTREE_OBJECT_TYPE_FILE
                    \<longrightarrow> remotes = pre @ remote # post
                    \<longrightarrow> sources_fail env opts checksum OSTREE_OBJECT_TYPE_FILE
                          (get_relative_object_path env checksum OSTREE_OBJECT_TYPE_FILE True)
                          pre start = Some st5
                    \<longrightarrow> repair_from_remote env opts checksum OSTREE_OBJECT_TYPE_FILE
                          (get_relative_object_path env checksum OSTREE_OBJECT_TYPE_FILE True)
                          remote st5 = (Return b, st6)
                    \<longrightarrow> load_and_fsck_one_object env opts checksum objtype repair_remotes
                          found_corruption st =
                        (Inr (), (if b then found_corruption else True), st6))
                \<and> (repair_remotes = Some remotes
                    \<longrightarrow> objtype \<noteq> OSTREE_OBJECT_TYPE_FILE
                    \<longrightarrow> load_and_fsck_one_object env opts checksum objtype repair_remotes
                          found_corruption st =
                        (Inr (), True,
                         g_printerr (''repair of '' @ object_type_to_string env objtype @ '' ''
                                       @ checksum @ '' failed, not implenented'') start)))
         \<and> (load_and_fsck_one_object env opts checksum objtype repair_remotes found_corruption st
              = (Inr (), found_corruption1, st3)
            \<longrightarrow> fsck_objects env opts repair_remotes m count ((checksum, objtype) # rest) i
                  found_corruption st =
                fsck_objects env opts repair_remotes m count rest (Suc i) found_corruption1
                  (print_progress m count i st3))"
proof -
  let ?one = "load_and_fsck_one_object env opts checksum objtype repair_remotes
                found_corruption st"
  let ?path = "get_relative_object_path env checksum OSTREE_OBJECT_TYPE_FILE True"
  have from_start:
    "?one = (case repair_or_flag env opts repair_remotes checksum objtype found_corruption
                    start of
               (found_corruption1, st2) \<Rightarrow> (Inr (), found_corruption1, st2))"
    if "load_error env (repo st) checksum objtype = Some e
          \<and> g_error_matches e G_IO_ERROR_NOT_FOUND
          \<and> start = g_printerr (object_missing checksum (object_type_to_string env objtype)) st
        \<or> load_object env checksum objtype st = (Inr (False, input, file_info, xattrs), st1)
          \<and> checksum_file_from_input env (repo st1) file_info xattrs input objtype
              = Inr computed_csum
          \<and> checksum_from_bytes env computed_csum \<noteq> checksum
          \<and> start = (g_printerr (corrupted_object checksum (object_type_to_string env objtype)
                                    (checksum_from_bytes env computed_csum) @ ''\<newline>'') st)
                       \<lparr>repo := snd (repo_delete_object env (repo st) objtype checksum)\<rparr>"
    using that
  proof
    assume gone: "load_error env (repo st) checksum objtype = Some e
          \<and> g_error_matches e G_IO_ERROR_NOT_FOUND
          \<and> start = g_printerr (object_missing checksum (object_type_to_string env objtype)) st"
    then have "load_error env (repo st) checksum objtype = Some e"
      and "g_error_matches e G_IO_ERROR_NOT_FOUND" by simp_all
    from one_object_missing [OF this] gone show ?thesis by simp
  next
    assume bad: "load_object env checksum objtype st
                   = (Inr (False, input, file_info, xattrs), st1)
          \<and> checksum_file_from_input env (repo st1) file_info xattrs input objtype
              = Inr computed_csum
          \<and> checksum_from_bytes env computed_csum \<noteq> checksum
          \<and> start = (g_printerr (corrupted_object checksum (object_type_to_string env objtype)
                                    (checksum_from_bytes env computed_csum) @ ''\<newline>'') st)
                       \<lparr>repo := snd (repo_delete_object env (repo st) objtype checksum)\<rparr>"
    then have "load_object env checksum objtype st = (Inr (False, input, file_info, xattrs), st1)"
      and "checksum_file_from_input env (repo st1) file_info xattrs input objtype
             = Inr computed_csum"
      and "checksum_from_bytes env computed_csum \<noteq> checksum" by simp_all
    from one_object_remediated [OF this enabled] bad show ?thesis by simp
  qed
  have none: "?one = (Inr (), True, start)"
    if "?one = (case repair_or_flag env opts repair_remotes checksum objtype found_corruption
                       start of
                  (found_corruption1, st2) \<Rightarrow> (Inr (), found_corruption1, st2))"
      and "repair_remotes = None"
    using that by (simp add: repair_or_flag_cases)
  have some: "?one = (Inr (), (if ok then found_corruption else True), st2)"
    if "?one = (case repair_or_flag env opts repair_remotes checksum objtype found_corruption
                       start of
                  (found_corruption1, st2) \<Rightarrow> (Inr (), found_corruption1, st2))"
      and "repair_remotes = Some remotes"
      and "repair_object env opts remotes checksum objtype start = (ok, st2)"
    for ok st2
    using that(1,2) by (simp add: repair_or_flag_cases(2) [OF that(3)])
  have all_fail: "?one = (Inr (), True, st4)"
    if "?one = (case repair_or_flag env opts repair_remotes checksum objtype found_corruption
                       start of
                  (found_corruption1, st2) \<Rightarrow> (Inr (), found_corruption1, st2))"
      and "repair_remotes = Some remotes" and "objtype = OSTREE_OBJECT_TYPE_FILE"
      and "sources_fail env opts checksum OSTREE_OBJECT_TYPE_FILE ?path remotes start = Some st4"
    using some [OF that(1,2), of False st4] repair_object_file_all_fail [OF that(4)] that(3)
    by simp
  have first: "?one = (Inr (), (if b then found_corruption else True), st6)"
    if "?one = (case repair_or_flag env opts repair_remotes checksum objtype found_corruption
                       start of
                  (found_corruption1, st2) \<Rightarrow> (Inr (), found_corruption1, st2))"
      and "repair_remotes = Some remotes" and "objtype = OSTREE_OBJECT_TYPE_FILE"
      and "remotes = pre @ remote # post"
      and "sources_fail env opts checksum OSTREE_OBJECT_TYPE_FILE ?path pre start = Some st5"
      and "repair_from_remote env opts checksum OSTREE_OBJECT_TYPE_FILE ?path remote st5
             = (Return b, st6)"
    using some [OF that(1,2), of b st6] repair_object_file_first [OF that(4,5,6)] that(3)
    by simp
  have metadata: "?one = (Inr (), True,
                           g_printerr (''repair of '' @ object_type_to_string env objtype @ '' ''
                                         @ checksum @ '' failed, not implenented'') start)"
    if "?one = (case repair_or_flag env opts repair_remotes checksum objtype found_corruption
                       start of
                  (found_corruption1, st2) \<Rightarrow> (Inr (), found_corruption1, st2))"
      and "repair_remotes = Some remotes" and "objtype \<noteq> OSTREE_OBJECT_TYPE_FILE"
    using some [OF that(1,2) repair_object_metadata [OF that(3)]] by simp
  have next_object:
    "fsck_objects env opts repair_remotes m count ((checksum, objtype) # rest) i
       found_corruption st =
     fsck_objects env opts repair_remotes m count rest (Suc i) found_corruption1
       (print_progress m count i st3)"
    if "?one = (Inr (), found_corruption1, st3)"
    using that by simp
  have unchanged: "repo (g_printerr (object_missing checksum (object_type_to_string env objtype))
                           st) = repo st"
    by simp
  show ?thesis
    using unchanged from_start none some all_fail first metadata next_object by blast
qed

theorem remediation_of_bad_object_witness:
  "opt_delete (demo_options False True False (Some [''origin'', ''mirror'']))
   \<and> checksum_from_bytes demo_env [0xb0] \<noteq> ''bb''
   \<and> fst (load_and_fsck_one_object demo_env
             (demo_options False True False (Some [''origin'', ''mirror'']))
             ''bb'' FILE (Some [''origin'', ''mirror'']) False corrupt_store) = Inr ()
   \<and> fst (snd (load_and_fsck_one_object demo_env
             (demo_options False True False (Some [''origin'', ''mirror'']))
             ''bb'' FILE (Some [''origin'', ''mirror'']) False corrupt_store)) = False
   \<and> calls (repo (snd (snd (load_and_fsck_one_object demo_env
             (demo_options False True False (Some [''origin'', ''mirror'']))
             ''bb'' FILE (Some [''origin'', ''mirror'']) False corrupt_store))))
       = [Deleted FILE ''bb'', Sent ''http://origin/objects/bb/.filez'',
          Sent ''http://mirror/objects/bb/.filez'', Written ''bb'']
   \<and> console (snd (snd (load_and_fsck_one_object demo_env
             (demo_options False True False (Some [''origin'', ''mirror'']))
             ''bb'' FILE (Some [''origin'', ''mirror'']) False corrupt_store)))
       = [Stderr ''corrupted object bb.file; actual checksum: b0\<newline>'',
          Stderr (''repair of file bb from origin failed, failed to download the ''
                    @ ''object from URL http://origin/objects/bb/.filez: Not Found'')]
   \<and> load_error demo_env (repo sparse_store) ''bb'' FILE = Some demo_not_found
   \<and> load_and_fsck_one_object demo_env (demo_options False False False (Some [''origin'']))
        ''bb'' FILE (Some [''origin'']) False sparse_store =
       (Inr (), True,
        sparse_store\<lparr>repo := (repo sparse_store)
           \<lparr>calls := [Sent ''http://origin/objects/bb/.filez'']\<rparr>,
          console := [Stderr ''Object missing: bb.file\<newline>'',
             Stderr (''repair of file bb from origin failed, failed to download the ''
                       @ ''object from URL http://origin/objects/bb/.filez: Not Found'')]\<rparr>)"
proof -
  let ?opts = "demo_options False True False (Some [''origin'', ''mirror''])"
  let ?remotes = "[''origin'', ''mirror'']"
  let ?path = "get_relative_object_path demo_env ''bb'' OSTREE_OBJECT_TYPE_FILE True"
  let ?bad = "(g_printerr (corrupted_object ''bb'' (object_type_to_string demo_env FILE)
                             (checksum_from_bytes demo_env [0xb0]) @ ''\<newline>'') corrupt_store)
                \<lparr>repo := snd (repo_delete_object demo_env (repo corrupt_store) FILE ''bb'')\<rparr>"
  have h0: "opt_delete ?opts \<or> Some ?remotes \<noteq> None"
    by simp
  have h1: "load_object demo_env ''bb'' FILE corrupt_store
              = (Inr (False, Some [0xb0], Some 0x81A4, Some (demo_file [0xb0] 0x81A4)),
                 corrupt_store)"
    by (simp add: model_defs demo_defs corrupt_store_def)
  have h2: "checksum_file_from_input demo_env (repo corrupt_store) (Some 0x81A4)
              (Some (demo_file [0xb0] 0x81A4)) (Some [0xb0]) FILE = Inr [0xb0]"
    by (simp add: demo_defs)
  have h3: "checksum_from_bytes demo_env [0xb0] \<noteq> ''bb''"
    by (simp add: demo_defs)
  have h4: "Some ?remotes = Some ?remotes"
    by simp
  have h5: "?remotes = [''origin''] @ ''mirror'' # []"
    by simp
  have h6: "sources_fail demo_env ?opts ''bb'' OSTREE_OBJECT_TYPE_FILE ?path [''origin''] ?bad
              = Some (snd (repair_from_remote demo_env ?opts ''bb'' OSTREE_OBJECT_TYPE_FILE ?path
                             ''origin'' ?bad))"
    by (simp add: model_defs demo_defs corrupt_store_def)
  have h7: "repair_from_remote demo_env ?opts ''bb'' OSTREE_OBJECT_TYPE_FILE ?path ''mirror''
              (snd (repair_from_remote demo_env ?opts ''bb'' OSTREE_OBJECT_TYPE_FILE ?path
                      ''origin'' ?bad))
              = (Return True,
                 snd (repair_from_remote demo_env ?opts ''bb'' OSTREE_OBJECT_TYPE_FILE ?path
                        ''mirror''
                        (snd (repair_from_remote demo_env ?opts ''bb'' OSTREE_OBJECT_TYPE_FILE
                                ?path ''origin'' ?bad))))"
    by (simp add: model_defs demo_defs corrupt_store_def)
  have h8: "opt_delete ?opts"
    by (simp add: demo_defs)
  have bad: "load_object demo_env ''bb'' FILE corrupt_store
               = (Inr (False, Some [0xb0], Some 0x81A4, Some (demo_file [0xb0] 0x81A4)),
                  corrupt_store)
             \<and> checksum_file_from_input demo_env (repo corrupt_store) (Some 0x81A4)
                 (Some (demo_file [0xb0] 0x81A4)) (Some [0xb0]) FILE = Inr [0xb0]
             \<and> checksum_from_bytes demo_env [0xb0] \<noteq> ''bb''
             \<and> ?bad = ?bad"
    using h1 h2 h3 by simp
  let ?quiet = "demo_options False False False (Some [''origin''])"
  let ?gone = "g_printerr (object_missing ''bb'' (object_type_to_string demo_env FILE))
                 sparse_store"
  have g0: "opt_delete ?quiet \<or> Some [''origin''] \<noteq> None"
    by simp
  have g1: "load_error demo_env (repo sparse_store) ''bb'' FILE = Some demo_not_found"
    by (simp add: load_error_def model_defs demo_env_def demo_load_def demo_store_def
          sparse_store_def demo_file_def demo_commit_def)
  have gone: "load_error demo_env (repo sparse_store) ''bb'' FILE = Some demo_not_found
              \<and> g_error_matches demo_not_found G_IO_ERROR_NOT_FOUND
              \<and> ?gone = ?gone"
    using g1 by (simp add: g_error_matches_def demo_not_found_def)
  have g2: "Some [''origin''] = Some [''origin'']"
    by simp
  have g3: "FILE = OSTREE_OBJECT_TYPE_FILE"
    by simp
  have g4: "sources_fail demo_env ?quiet ''bb'' OSTREE_OBJECT_TYPE_FILE ?path [''origin''] ?gone
              = Some (sparse_store\<lparr>repo := (repo sparse_store)
                   \<lparr>calls := [Sent ''http://origin/objects/bb/.filez'']\<rparr>,
                  console := [Stderr ''Object missing: bb.file\<newline>'',
                     Stderr (''repair of file bb from origin failed, failed to download the ''
                               @ ''object from URL http://origin/objects/bb/.filez: Not Found'')]\<rparr>)"
    by (simp add: model_defs demo_defs sparse_store_def)
  note mismatch = remediation_of_bad_object [OF h0, THEN conjunct2, THEN conjunct1, THEN mp,
                    OF disjI2, OF bad, THEN conjunct2, THEN conjunct2, THEN conjunct2,
                    THEN conjunct1, rule_format, OF h4 g3 h5 h6 h7]
  note missing = remediation_of_bad_object [OF g0, THEN conjunct2, THEN conjunct1, THEN mp,
                    OF disjI1, OF gone, THEN conjunct2, THEN conjunct2, THEN conjunct1,
                    rule_format, OF g2 g3 g4]
  from mismatch [of False] missing [of False] h3 h8 g1
  show ?thesis
    by (simp add: model_defs demo_defs corrupt_store_def)
qed

text \<open>
  Claim C3 as it is written fails for a missing object: the file \<open>bb\<close> is not in the store,
  \<open>--delete\<close> is set and a repair remote is configured. With the remote \<open>origin\<close>, which
  does not serve the file, the only call that goes out is the request to the remote:
  \<open>ostree_repo_delete_object\<close> is not called. With the remote \<open>stale\<close>, whose content fails
  to be written, the deletion is the last call and not the first: it is the one that
  \<open>repair_object\<close> makes after the write has failed. And for the missing directory
  metadata \<open>dd\<close>, which the remote \<open>origin\<close> serves, no call goes out at all: the configured
  source is not tried.
\<close>

theorem missing_object_is_not_deleted:
  "load_error demo_env (repo sparse_store) ''bb'' FILE = Some demo_not_found
   \<and> g_error_matches demo_not_found G_IO_ERROR_NOT_FOUND
   \<and> opt_delete (demo_options False True False (Some [''origin'']))
   \<and> calls (repo (snd (snd (load_and_fsck_one_object demo_env
                               (demo_options False True False (Some [''origin'']))
                               ''bb'' FILE (Some [''origin'']) False sparse_store))))
       = [Sent ''http://origin/objects/bb/.filez'']
   \<and> fst (snd (load_and_fsck_one_object demo_env
                  (demo_options False True False (Some [''origin'']))
                  ''bb'' FILE (Some [''origin'']) False sparse_store)) = True
   \<and> load_error demo_env (repo stale_store) ''bb'' FILE = Some demo_not_found
   \<and> calls (repo (snd (snd (load_and_fsck_one_object demo_env
                               (demo_options False True False (Some [''stale'']))
                               ''bb'' FILE (Some [''stale'']) False stale_store))))
       = [Sent ''http://stale/objects/bb/.filez'', Written ''bb'', Deleted FILE ''bb'']
   \<and> load_error demo_env (repo sparse_store) ''dd'' DIR_META = Some demo_not_found
   \<and> map_of (served (repo sparse_store)) ''http://origin/objects/dd/.dirmetaz'' = Some [0xdd]
   \<and> calls (repo (snd (snd (load_and_fsck_one_object demo_env
                               (demo_options False True False (Some [''origin'']))
                               ''dd'' DIR_META (Some [''origin'']) False sparse_store)))) = []
   \<and> fst (snd (load_and_fsck_one_object demo_env
                  (demo_options False True False (Some [''origin'']))
                  ''dd'' DIR_META (Some [''origin'']) False sparse_store)) = True"
  by (simp add: load_error_def model_defs demo_defs sparse_store_def stale_store_def)

subsection \<open>The census of commits\<close>





















subsection \<open>Tombstones\<close>











subsection \<open>The repair remotes\<close>

lemma strv_contains_set: "strv_contains haystack needle = (needle \<in> set haystack)"
  by (induction haystack) auto

text \<open>
  Claim C8. When \<open>--repair-from-remote\<close> was given more than once and one of the values is
  \<open>-\<close>, \<open>prepare_repair_remotes\<close> fails with the error "Either list repair remotes
  explicitly or use - (dash) to use all available remotes", and the run returns that error
  in the state in which it started: nothing was enumerated, verified or printed. When \<open>-\<close>
  is the only value, the repair remotes are what \<open>ostree_repo_remote_list\<close> returns.
\<close>

theorem dash_selects_all_remotes:
  "(opt_repair_remotes opts = Some remotes \<longrightarrow> ''-'' \<in> set remotes \<longrightarrow> length remotes > 1
      \<longrightarrow> prepare_repair_remotes env opts w
            = Inl (GError G_IO_ERROR_FAILED
                (''Either list repair remotes explicitly or use - (dash) ''
                   @ ''to use all available remotes''))
          \<and> ostree_builtin_fsck env opts st
            = (Inl (Failed (Some (GError G_IO_ERROR_FAILED
                  (''Either list repair remotes explicitly or use - (dash) ''
                     @ ''to use all available remotes'')))), st))
   \<and> (opt_repair_remotes opts = Some [''-'']
      \<longrightarrow> prepare_repair_remotes env opts w = Inr (repo_remote_list env w))"
proof -
  have mixed: "prepare_repair_remotes env opts w1
                 = Inl (GError G_IO_ERROR_FAILED
                     (''Either list repair remotes explicitly or use - (dash) ''
                        @ ''to use all available remotes''))"
    if "opt_repair_remotes opts = Some remotes" and "''-'' \<in> set remotes"
      and "length remotes > 1"
    for w1
  proof -
    from that(3) obtain r rs where "remotes = r # rs" by (cases remotes) auto
    with that show ?thesis
      by (simp add: prepare_repair_remotes_def strv_contains_set dash_error_def
            del: strv_contains.simps)
  qed
  have alone: "prepare_repair_remotes env opts w = Inr (repo_remote_list env w)"
    if "opt_repair_remotes opts = Some [''-'']"
    using that by (simp add: prepare_repair_remotes_def)
  show ?thesis
    using mixed [of w] mixed [of "repo st"] alone
    by (simp add: ostree_builtin_fsck_def)
qed

theorem dash_selects_all_remotes_witness:
  "ostree_builtin_fsck demo_env (demo_options False False False (Some [''origin'', ''-'']))
     corrupt_store
     = (Inl (Failed (Some (GError G_IO_ERROR_FAILED
           (''Either list repair remotes explicitly or use - (dash) ''
              @ ''to use all available remotes'')))), corrupt_store)
   \<and> prepare_repair_remotes demo_env (demo_options False False False (Some [''-'']))
        (repo corrupt_store) = Inr (Some [''origin'', ''mirror''])"
proof -
  have h1: "opt_repair_remotes (demo_options False False False (Some [''origin'', ''-'']))
              = Some [''origin'', ''-'']"
    by (simp add: demo_options_def)
  have h2: "''-'' \<in> set [''origin'', ''-'']"
    by simp
  have h3: "length [''origin'', ''-''] > 1"
    by simp
  have h4: "opt_repair_remotes (demo_options False False False (Some [''-''])) = Some [''-'']"
    by (simp add: demo_options_def)
  have h5: "repo_remote_list demo_env (repo corrupt_store) = Some [''origin'', ''mirror'']"
    by (simp add: demo_env_def corrupt_store_def demo_store_def)
  from dash_selects_all_remotes [THEN conjunct1, rule_format, OF h1 h2 h3, THEN conjunct2,
         of demo_env corrupt_store]
       dash_selects_all_remotes [THEN conjunct2, rule_format, OF h4,
         of demo_env "repo corrupt_store"] h5
  show ?thesis by simp
qed

subsection \<open>Progress lines\<close>

text \<open>The loop over the reachable objects does not read \<open>opt_quiet\<close>.\<close>

lemma repair_object_ignores_quiet:
  "repair_object env (opts\<lparr>opt_quiet := quiet\<rparr>) remotes checksum objtype st
     = repair_object env opts remotes checksum objtype st"
proof -
  have round: "repair_from_remote env (opts\<lparr>opt_quiet := quiet\<rparr>) checksum t path
                 remote st1 = repair_from_remote env opts checksum t path remote st1"
    for t path remote st1
    by (simp add: repair_from_remote_def Let_def
          cong: sum.case_cong prod.case_cong option.case_cong if_cong)
  have loop: "repair_loop env (opts\<lparr>opt_quiet := quiet\<rparr>) checksum t path remotes st1
                = repair_loop env opts checksum t path remotes st1"
    for t path st1
    by (induction remotes arbitrary: st1)
      (simp_all add: round cong: prod.case_cong loop_exit.case_cong)
  show ?thesis by (simp add: repair_object_def loop)
qed

lemma fsck_objects_ignores_quiet:
  "fsck_objects env (opts\<lparr>opt_quiet := quiet\<rparr>) repair_remotes m count objects i
     found_corruption st
     = fsck_objects env opts repair_remotes m count objects i found_corruption st"
proof (induction objects arbitrary: i found_corruption st)
  case Nil
  show ?case by simp
next
  case (Cons obj objects)
  obtain checksum objtype where obj: "obj = (checksum, objtype)" by (cases obj)
  have one: "load_and_fsck_one_object env (opts\<lparr>opt_quiet := quiet\<rparr>) checksum objtype
               repair_remotes found_corruption st
             = load_and_fsck_one_object env opts checksum objtype repair_remotes
                 found_corruption st"
    by (simp add: load_and_fsck_one_object_def repair_or_flag_def repair_object_ignores_quiet
          Let_def cong: sum.case_cong prod.case_cong option.case_cong if_cong)
  show ?case
    by (simp add: obj one Cons.IH cong: prod.case_cong sum.case_cong)
qed

text \<open>
  Claim C9 says that progress lines are printed only when \<open>--quiet\<close> is not given. The
  loop of \<open>fsck_reachable_objects_from_commits\<close> prints them without looking at
  \<open>opt_quiet\<close>: a quiet run over three intact objects prints one line per object, and
  nothing else.
\<close>

theorem progress_printed_when_quiet:
  "opt_quiet (demo_options True False False None)
   \<and> ostree_builtin_fsck demo_env (demo_options True False False None) intact_store
       = (Inr (),
          intact_store\<lparr>console :=
            [Stdout ''1/3 objects\<newline>'', Stdout ''2/3 objects\<newline>'',
             Stdout ''3/3 objects\<newline>'']\<rparr>)"
  by (simp add: model_defs demo_defs intact_store_def string_of_uint.simps)

end
